theory Spec2Isabelle
  imports Complex_Main "HOL-Library.Char_ord" "HOL-Library.List_Lexorder"
    "HOL-Library.Option_ord" "HOL-Library.Sublist"
begin

section \<open>Values\<close>

text \<open>
  A Python \<open>str\<close> is a \<open>string\<close>; a \<open>char\<close> stands for a code point below 256.

  A Python \<open>float\<close> (and an SQLite REAL) is a binary64 value: a finite value is given by the
  number it denotes, so \<open>0.0\<close> and \<open>-0.0\<close> are both \<open>Fin 0\<close> (they compare equal and are
  both falsy in Python).
\<close>

datatype pyfloat = Fin real | PInf | NInf | NaN

text \<open>Comparison of floats: every comparison with NaN is false.\<close>

fun float_less :: "pyfloat \<Rightarrow> pyfloat \<Rightarrow> bool" where
  "float_less NaN _ = False"
| "float_less _ NaN = False"
| "float_less (Fin a) (Fin b) = (a < b)"
| "float_less (Fin _) PInf = True"
| "float_less (Fin _) NInf = False"
| "float_less PInf _ = False"
| "float_less NInf NInf = False"
| "float_less NInf _ = True"

text \<open>Truthiness of a float: only zero is falsy.\<close>

definition float_bool :: "pyfloat \<Rightarrow> bool" where
  "float_bool f = (f \<noteq> Fin 0)"

subsection \<open>Rounding to binary64\<close>

text \<open>
  The nearest binary64 value of a real number, ties to even: 53 significant bits, exponents
  from \<open>-1022\<close> (below which the spacing stays \<open>2 ^ -1074\<close>) to \<open>1023\<close>, and infinity from
  \<open>2 ^ 1024\<close> on.
\<close>

definition pow2 :: "int \<Rightarrow> real" where
  "pow2 k = (if 0 \<le> k then 2 ^ nat k else 1 / 2 ^ nat (- k))"

definition pow10 :: "int \<Rightarrow> real" where
  "pow10 k = (if 0 \<le> k then 10 ^ nat k else 1 / 10 ^ nat (- k))"

definition round_half_even :: "real \<Rightarrow> int" where
  "round_half_even q =
     (let f = \<lfloor>q\<rfloor>; r = q - of_int f in
      if r < 1 / 2 then f else if 1 / 2 < r then f + 1 else if even f then f else f + 1)"

function bit_length :: "int \<Rightarrow> int" where
  "bit_length n = (if n \<le> 0 then 0 else 1 + bit_length (n div 2))"
  by pat_completeness auto
termination
  by (relation "measure nat") auto

declare bit_length.simps [simp del]

text \<open>\<open>ilog2 q\<close> is the integer \<open>e\<close> with \<open>2 ^ e \<le> q < 2 ^ (e + 1)\<close>, for positive \<open>q\<close>.\<close>

definition ilog2 :: "real \<Rightarrow> int" where
  "ilog2 q = (if 1 \<le> q then bit_length \<lfloor>q\<rfloor> - 1 else - bit_length (\<lceil>1 / q\<rceil> - 1))"

definition round_double :: "real \<Rightarrow> pyfloat" where
  "round_double q =
     (if q = 0 then Fin 0
      else let a = \<bar>q\<bar>;
               e = max (ilog2 a) (- 1022);
               u = pow2 (e - 52);
               v = of_int (round_half_even (a / u)) * u
           in if pow2 1024 \<le> v then (if 0 < q then PInf else NInf)
              else Fin (if 0 < q then v else - v))"

text \<open>Addition of floats: the exact sum, rounded.\<close>

fun float_add :: "pyfloat \<Rightarrow> pyfloat \<Rightarrow> pyfloat" where
  "float_add NaN _ = NaN"
| "float_add _ NaN = NaN"
| "float_add (Fin a) (Fin b) = round_double (a + b)"
| "float_add PInf NInf = NaN"
| "float_add NInf PInf = NaN"
| "float_add PInf _ = PInf"
| "float_add _ PInf = PInf"
| "float_add NInf _ = NInf"
| "float_add _ NInf = NInf"

subsection \<open>Python's \<open>float(str)\<close>\<close>

text \<open>
  \<open>float\<close> of a string: underscores are allowed between digits only and are dropped; white
  space around the number is stripped (for code points below 256 that is tab, line feed,
  vertical tab, form feed, carriage return, space, and NEL and the no-break space); the rest
  is a sign and \<open>inf\<close>, \<open>infinity\<close> or \<open>nan\<close> in any letter case, or a decimal numeral with
  an optional fraction and exponent, whose value is rounded to the nearest binary64 value.
  Any other string raises \<open>ValueError\<close>, which is \<open>None\<close> here.
\<close>

definition is_digit :: "char \<Rightarrow> bool" where
  "is_digit c = (c \<in> set ''0123456789'')"

definition digit_val :: "char \<Rightarrow> nat" where
  "digit_val c = of_char c - 48"

definition digits_val :: "string \<Rightarrow> nat" where
  "digits_val ds = foldl (\<lambda>n c. 10 * n + digit_val c) 0 ds"

definition lower :: "char \<Rightarrow> char" where
  "lower c =
     (case map_of (zip ''ABCDEFGHIJKLMNOPQRSTUVWXYZ'' ''abcdefghijklmnopqrstuvwxyz'') c of
        None \<Rightarrow> c
      | Some l \<Rightarrow> l)"

definition float_space :: "char \<Rightarrow> bool" where
  "float_space c =
     (c \<in> set [CHR 0x09, CHR 0x0A, CHR 0x0B, CHR 0x0C, CHR 0x0D, CHR 0x20, CHR 0x85, CHR 0xA0])"

definition strip :: "string \<Rightarrow> string" where
  "strip s = rev (dropWhile float_space (rev (dropWhile float_space s)))"

fun underscores_ok :: "char \<Rightarrow> string \<Rightarrow> bool" where
  "underscores_ok prev [] = (prev \<noteq> CHR ''_'')"
| "underscores_ok prev (c # cs) =
     ((if c = CHR ''_'' then is_digit prev
       else if prev = CHR ''_'' then is_digit c else True) \<and> underscores_ok c cs)"

definition strip_sign :: "string \<Rightarrow> bool \<times> string" where
  "strip_sign s =
     (case s of
        [] \<Rightarrow> (False, [])
      | c # cs \<Rightarrow> if c = CHR ''-'' then (True, cs)
                  else if c = CHR ''+'' then (False, cs) else (False, s))"

definition parse_inf_or_nan :: "string \<Rightarrow> pyfloat option" where
  "parse_inf_or_nan s =
     (let (neg, r) = strip_sign s; l = map lower r in
      if l = ''inf'' \<or> l = ''infinity'' then Some (if neg then NInf else PInf)
      else if l = ''nan'' then Some NaN
      else None)"

definition parse_exponent :: "string \<Rightarrow> int option" where
  "parse_exponent s =
     (case s of
        [] \<Rightarrow> Some 0
      | c # cs \<Rightarrow>
          if c = CHR ''e'' \<or> c = CHR ''E'' then
            (let (neg, ds) = strip_sign cs in
             if ds \<noteq> [] \<and> list_all is_digit ds
             then Some (if neg then - int (digits_val ds) else int (digits_val ds))
             else None)
          else None)"

definition parse_decimal :: "string \<Rightarrow> real option" where
  "parse_decimal s =
     (let (neg, r) = strip_sign s;
          ip = takeWhile is_digit r;
          r1 = dropWhile is_digit r;
          point = (r1 \<noteq> [] \<and> hd r1 = CHR ''.'');
          fp = (if point then takeWhile is_digit (tl r1) else []);
          r2 = (if point then dropWhile is_digit (tl r1) else r1)
      in if ip = [] \<and> fp = [] then None
         else case parse_exponent r2 of
                None \<Rightarrow> None
              | Some e \<Rightarrow>
                  Some ((if neg then - 1 else 1) * real (digits_val (ip @ fp))
                        * pow10 (e - int (length fp))))"

definition py_float :: "string \<Rightarrow> pyfloat option" where
  "py_float s =
     (if \<not> underscores_ok (CHR 0x00) s then None
      else let u = strip (filter (\<lambda>c. c \<noteq> CHR ''_'') s) in
           if u = [] then None
           else case parse_inf_or_nan u of
                  Some f \<Rightarrow> Some f
                | None \<Rightarrow> map_option round_double (parse_decimal u))"

text \<open>The exceptions the program can meet; the string is \<open>str(e)\<close>.\<close>

datatype exn =
    OperationalError string
  | IntegrityError string
  | ValueError string
  | EOFError
  | OverflowError string
  | OtherError string

fun str_exn :: "exn \<Rightarrow> string" where
  "str_exn (OperationalError m) = m"
| "str_exn (IntegrityError m) = m"
| "str_exn (ValueError m) = m"
| "str_exn EOFError = ''EOF when reading a line''"
| "str_exn (OverflowError m) = m"
| "str_exn (OtherError m) = m"

text \<open>\<open>sqlite3.Error\<close> is the base class of the database exceptions only.\<close>

fun is_sqlite3_Error :: "exn \<Rightarrow> bool" where
  "is_sqlite3_Error (OperationalError _) = True"
| "is_sqlite3_Error (IntegrityError _) = True"
| "is_sqlite3_Error _ = False"

section \<open>The store\<close>

text \<open>
  The schema of \<open>init_db\<close>:
  \<^verbatim>\<open>
  CREATE TABLE IF NOT EXISTS transactions (
      id INTEGER PRIMARY KEY AUTOINCREMENT,
      date TEXT NOT NULL,
      category TEXT NOT NULL,
      amount REAL NOT NULL,
      description TEXT
  );
  \<close>
  A row holds what SQLite stores in each column: text in \<open>date\<close> and \<open>category\<close>, a REAL
  in \<open>amount\<close> (never NaN, which SQLite turns into NULL), text or NULL (\<open>None\<close>) in
  \<open>description\<close>.
\<close>

record txn =
  txn_id :: int
  txn_date :: string
  txn_category :: string
  txn_amount :: pyfloat
  txn_description :: "string option"

text \<open>
  A table is its rows in rowid order and its entry in \<open>sqlite_sequence\<close> (the largest rowid
  ever handed out by AUTOINCREMENT). The database file holds the table \<open>transactions\<close> or
  does not. A \<open>db\<close> is the committed content of the file; failures of the file itself
  (locked by another connection, unreadable, disk full) are not modelled.
\<close>

record table =
  rows :: "txn list"
  seq :: int

record db =
  transactions :: "table option"

subsection \<open>Connections\<close>

text \<open>
  A \<open>sqlite3\<close> connection in Python's default transaction mode: an INSERT opens a
  transaction implicitly and works on a copy that only \<open>commit\<close> writes to the file; DDL
  outside a transaction takes effect at once. A connection that is closed with an open
  transaction rolls it back, and so does one that is dropped without \<open>close\<close>, when it is
  finalised: either way the file keeps what was committed.
\<close>

record conn =
  persisted :: db
  pending :: "db option"

definition connect :: "db \<Rightarrow> conn" where
  "connect d = \<lparr>persisted = d, pending = None\<rparr>"

definition current :: "conn \<Rightarrow> db" where
  "current c = (case pending c of None \<Rightarrow> persisted c | Some w \<Rightarrow> w)"

definition commit :: "conn \<Rightarrow> conn" where
  "commit c = \<lparr>persisted = current c, pending = None\<rparr>"

definition close :: "conn \<Rightarrow> db" where
  "close c = persisted c"

definition abandon :: "conn \<Rightarrow> db" where
  "abandon c = persisted c"

text \<open>A data definition statement: in the open transaction if there is one, else at once.\<close>

definition ddl :: "(db \<Rightarrow> db) \<Rightarrow> conn \<Rightarrow> conn" where
  "ddl f c = (case pending c of
                None \<Rightarrow> c\<lparr>persisted := f (persisted c)\<rparr>
              | Some w \<Rightarrow> c\<lparr>pending := Some (f w)\<rparr>)"

text \<open>\<^verbatim>\<open>DROP TABLE IF EXISTS transactions\<close>: the table goes, and its sequence entry with it.\<close>

definition drop_table_if_exists :: "conn \<Rightarrow> exn + conn" where
  "drop_table_if_exists c = Inr (ddl (\<lambda>d. d\<lparr>transactions := None\<rparr>) c)"

text \<open>\<^verbatim>\<open>CREATE TABLE IF NOT EXISTS transactions (...)\<close>: an existing table is left alone.\<close>

definition create_table_if_not_exists :: "conn \<Rightarrow> exn + conn" where
  "create_table_if_not_exists c =
     Inr (ddl (\<lambda>d. case transactions d of
                      None \<Rightarrow> d\<lparr>transactions := Some \<lparr>rows = [], seq = 0\<rparr>\<rparr>
                    | Some _ \<Rightarrow> d) c)"

text \<open>\<^verbatim>\<open>SELECT * FROM transactions;\<close>\<close>

definition no_such_table :: exn where
  "no_such_table = OperationalError ''no such table: transactions''"

definition select_where :: "(txn \<Rightarrow> bool) \<Rightarrow> conn \<Rightarrow> exn + txn list" where
  "select_where p c = (case transactions (current c) of
                         None \<Rightarrow> Inl no_such_table
                       | Some t \<Rightarrow> Inr (filter p (rows t)))"

definition select_all :: "conn \<Rightarrow> exn + txn list" where
  "select_all c = select_where (\<lambda>_. True) c"

text \<open>
  \<^verbatim>\<open>INSERT INTO transactions (date, category, amount, description) VALUES (?, ?, ?, ?);\<close>
  with the four bound values, \<open>None\<close> for NULL. The statement fails when the table is
  missing and when a NOT NULL column would get NULL; otherwise it opens a transaction if
  none is open and adds one row, whose id is one more than the largest id the table has
  had (AUTOINCREMENT).
\<close>

definition new_rowid :: "table \<Rightarrow> int" where
  "new_rowid t = max (seq t) (fold max (map txn_id (rows t)) 0) + 1"

definition not_null_failed :: "string \<Rightarrow> exn" where
  "not_null_failed col = IntegrityError (''NOT NULL constraint failed: transactions.'' @ col)"

definition insert_row ::
  "string option \<Rightarrow> string option \<Rightarrow> pyfloat option \<Rightarrow> string option \<Rightarrow> table \<Rightarrow> exn + table" where
  "insert_row date category amount description t =
     (case date of
        None \<Rightarrow> Inl (not_null_failed ''date'')
      | Some dv \<Rightarrow>
          (case category of
             None \<Rightarrow> Inl (not_null_failed ''category'')
           | Some cv \<Rightarrow>
               (case amount of
                  None \<Rightarrow> Inl (not_null_failed ''amount'')
                | Some av \<Rightarrow>
                    Inr \<lparr>rows = rows t @
                           [\<lparr>txn_id = new_rowid t, txn_date = dv, txn_category = cv,
                             txn_amount = av, txn_description = description\<rparr>],
                         seq = new_rowid t\<rparr>)))"

definition execute_insert ::
  "conn \<Rightarrow> string option \<Rightarrow> string option \<Rightarrow> pyfloat option \<Rightarrow> string option \<Rightarrow> exn + conn" where
  "execute_insert c date category amount description =
     (case transactions (current c) of
        None \<Rightarrow> Inl no_such_table
      | Some t \<Rightarrow>
          (case insert_row date category amount description t of
             Inl e \<Rightarrow> Inl e
           | Inr t' \<Rightarrow> Inr (c\<lparr>pending := Some ((current c)\<lparr>transactions := Some t'\<rparr>)\<rparr>)))"

text \<open>A float parameter is bound as a REAL, except NaN, which SQLite takes as NULL.\<close>

definition bind_float :: "pyfloat \<Rightarrow> pyfloat option" where
  "bind_float f = (if f = NaN then None else Some f)"

section \<open>The desktop program: \<open>init_db\<close>\<close>

text \<open>
  \<^verbatim>\<open>
  def init_db():
      try:
          conn = sqlite3.connect(DB_NAME)
          cursor = conn.cursor()
          cursor.execute("DROP TABLE IF EXISTS transactions")
          cursor.execute("""CREATE TABLE IF NOT EXISTS transactions (...)""")
          conn.commit()
          conn.close()
          print("Database initialized successfully.")
      except sqlite3.Error as e:
          print(f"Error initializing database: {e}")
  \<close>
  The result is the line printed and the database file afterwards.
\<close>

definition init_db :: "db \<Rightarrow> string \<times> db" where
  "init_db d =
     (let c0 = connect d in
      case drop_table_if_exists c0 of
        Inl e \<Rightarrow> (''Error initializing database: '' @ str_exn e, abandon c0)
      | Inr c1 \<Rightarrow>
          (case create_table_if_not_exists c1 of
             Inl e \<Rightarrow> (''Error initializing database: '' @ str_exn e, abandon c1)
           | Inr c2 \<Rightarrow> (''Database initialized successfully.'', close (commit c2))))"

text \<open>
  \<open>view_transactions\<close> runs \<^verbatim>\<open>SELECT * FROM transactions;\<close> and shows "No transactions
  found." for an empty result, one label per row otherwise (the label text is not
  modelled), and a database error caught as \<open>sqlite3.Error\<close>.
\<close>

datatype dialog = ShowInfo string string | ShowError string string

datatype view = Dialog dialog | Labels "txn list"

definition view_transactions :: "db \<Rightarrow> view" where
  "view_transactions d =
     (case select_all (connect d) of
        Inl e \<Rightarrow> Dialog (ShowError ''Database Error'' (''Error retrieving transactions: '' @ str_exn e))
      | Inr ts \<Rightarrow> if ts = [] then Dialog (ShowInfo ''No Data'' ''No transactions found.'')
                  else Labels ts)"

section \<open>The desktop program: validation and \<open>add_transaction\<close>\<close>

text \<open>
  \<^verbatim>\<open>
  def validate_date(date):
      pattern = r"^\d{4}-\d{2}-\d{2}$"
      return re.match(pattern, date)
  \<close>
  The result is used for its truth value. In Python's \<open>re\<close>, \<open>$\<close> also matches just before a
  line feed that ends the string, and \<open>\d\<close> matches the decimal digits, which below code
  point 256 are \<open>0\<close> to \<open>9\<close>.
\<close>

fun date_shape :: "string \<Rightarrow> bool" where
  "date_shape [y1, y2, y3, y4, h1, m1, m2, h2, d1, d2] =
     (is_digit y1 \<and> is_digit y2 \<and> is_digit y3 \<and> is_digit y4 \<and> h1 = CHR ''-'' \<and>
      is_digit m1 \<and> is_digit m2 \<and> h2 = CHR ''-'' \<and> is_digit d1 \<and> is_digit d2)"
| "date_shape _ = False"

definition validate_date :: "string \<Rightarrow> bool" where
  "validate_date date =
     date_shape (if date \<noteq> [] \<and> last date = CHR 0x0A then butlast date else date)"

text \<open>
  \<^verbatim>\<open>
  def validate_amount(amount):
      try:
          return float(amount) > 0
      except ValueError:
          return False
  \<close>
\<close>

definition validate_amount :: "string \<Rightarrow> bool" where
  "validate_amount amount =
     (case py_float amount of None \<Rightarrow> False | Some f \<Rightarrow> float_less (Fin 0) f)"

text \<open>
  \<open>input()\<close> takes the next line of the input, and raises \<open>EOFError\<close> when there is none.
\<close>

definition input :: "string list \<Rightarrow> exn + string \<times> string list" where
  "input ins = (case ins of [] \<Rightarrow> Inl EOFError | l # ls \<Rightarrow> Inr (l, ls))"

text \<open>
  \<^verbatim>\<open>
  def add_transaction():
      date = input("Enter transaction date (YYYY-MM-DD): ")
      if not validate_date(date):
          print("Invalid date format. Please use YYYY-MM-DD.")
          return
      category = input("Enter transaction category (e.g., Food, Rent): ")
      amount = input("Enter transaction amount: ")
      if not validate_amount(amount):
          print("Invalid amount. Please enter a positive number.")
          return
      description = input("Enter transaction description (optional): ")
      try:
          conn = sqlite3.connect(DB_NAME)
          cursor = conn.cursor()
          cursor.execute("""INSERT INTO transactions (date, category, amount, description)
                            VALUES (?, ?, ?, ?);""", (date, category, float(amount), description))
          conn.commit()
          conn.close()
          print("Transaction added successfully!")
      except sqlite3.Error as e:
          print(f"Error adding transaction: {e}")
  \<close>
  The result is the line printed (or the exception that escapes), the input left unread and
  the database file afterwards.
\<close>

datatype outcome = Printed string | Raised exn

definition add_transaction :: "string list \<Rightarrow> db \<Rightarrow> outcome \<times> string list \<times> db" where
  "add_transaction ins d =
     (case input ins of
        Inl e \<Rightarrow> (Raised e, ins, d)
      | Inr (date, in1) \<Rightarrow>
          if \<not> validate_date date
          then (Printed ''Invalid date format. Please use YYYY-MM-DD.'', in1, d)
          else
            (case input in1 of
               Inl e \<Rightarrow> (Raised e, in1, d)
             | Inr (category, in2) \<Rightarrow>
                 (case input in2 of
                    Inl e \<Rightarrow> (Raised e, in2, d)
                  | Inr (amount, in3) \<Rightarrow>
                      if \<not> validate_amount amount
                      then (Printed ''Invalid amount. Please enter a positive number.'', in3, d)
                      else
                        (case input in3 of
                           Inl e \<Rightarrow> (Raised e, in3, d)
                         | Inr (description, in4) \<Rightarrow>
                             (let c = connect d in
                              case py_float amount of
                                None \<Rightarrow> (Raised (ValueError ''could not convert string to float''),
                                         in4, abandon c)
                              | Some f \<Rightarrow>
                                  (case execute_insert c (Some date) (Some category)
                                          (bind_float f) (Some description) of
                                     Inl e \<Rightarrow>
                                       (if is_sqlite3_Error e
                                        then Printed (''Error adding transaction: '' @ str_exn e)
                                        else Raised e, in4, abandon c)
                                   | Inr c' \<Rightarrow>
                                       (Printed ''Transaction added successfully!'', in4,
                                        close (commit c'))))))))"

section \<open>The desktop program: \<open>upload_csv\<close>\<close>

text \<open>
  \<open>pd.read_csv\<close> gives a frame: the column names of the header and the data rows. Of a data
  row the program reads \<open>row['date']\<close>, \<open>row['category']\<close>, \<open>row['amount']\<close> and
  \<open>row['description']\<close> and hands them to \<open>cursor.execute\<close> as the parameters of the INSERT.
  A cell is the Python object that \<open>row[...]\<close> is when the frame has a column of text, so
  that \<open>iterrows\<close> yields rows of Python objects: a \<open>str\<close>, an \<open>int\<close> (a column of whole
  numbers), a \<open>bool\<close> (a column of \<open>True\<close>/\<open>False\<close>) or a \<open>float\<close>, which is NaN for an empty
  cell. Left out are
  \<^item> a frame all of whose columns are numeric, whose rows are numpy scalars (a
    \<open>numpy.int64\<close> is bound as a BLOB);
  \<^item> a \<open>float\<close> other than NaN in \<open>date\<close>, \<open>category\<close> or \<open>description\<close> (a numeric column
    with empty cells), which SQLite stores as the text of the number;
  \<^item> a \<open>str\<close> in \<open>amount\<close>, which SQLite stores as a number when the text is one and as
    text otherwise.
\<close>

datatype text_cell = Str string | IntT int | BoolT bool | Missing

datatype amount_cell = Float pyfloat | IntA int | BoolA bool

record csv_row =
  cell_date :: text_cell
  cell_category :: text_cell
  cell_amount :: amount_cell
  cell_description :: text_cell

record dataframe =
  df_columns :: "string list"
  df_rows :: "csv_row list"

text \<open>
  Binding a parameter: a \<open>str\<close> is bound as TEXT, a \<open>float\<close> as REAL (NaN as NULL), an \<open>int\<close>
  and a \<open>bool\<close> (\<open>True\<close> is 1) as a 64-bit INTEGER. An \<open>int\<close> outside the 64-bit range
  raises \<open>OverflowError\<close>, which is not an \<open>sqlite3.Error\<close>. On storing, a column of
  affinity TEXT turns an INTEGER into its decimal numeral, and a column of affinity REAL
  turns it into the nearest REAL. \<open>text_column\<close> and \<open>real_column\<close> give what a cell stores
  in a column of that affinity (\<open>None\<close> for NULL), or the exception of the binding.
\<close>

definition fits_int64 :: "int \<Rightarrow> bool" where
  "fits_int64 i = (- 9223372036854775808 \<le> i \<and> i \<le> 9223372036854775807)"

definition int_too_large :: exn where
  "int_too_large = OverflowError ''Python int too large to convert to SQLite INTEGER''"

function digits_text :: "nat \<Rightarrow> string" where
  "digits_text n = (if n < 10 then [''0123456789'' ! n]
                    else digits_text (n div 10) @ [''0123456789'' ! (n mod 10)])"
  by pat_completeness auto
termination
  by (relation "measure id") auto

declare digits_text.simps [simp del]

definition integer_text :: "int \<Rightarrow> string" where
  "integer_text i = (if i < 0 then CHR ''-'' # digits_text (nat (- i)) else digits_text (nat i))"

fun text_column :: "text_cell \<Rightarrow> exn + string option" where
  "text_column (Str s) = Inr (Some s)"
| "text_column (IntT i) = (if fits_int64 i then Inr (Some (integer_text i)) else Inl int_too_large)"
| "text_column (BoolT b) = Inr (Some (if b then ''1'' else ''0''))"
| "text_column Missing = Inr None"

fun real_column :: "amount_cell \<Rightarrow> exn + pyfloat option" where
  "real_column (Float f) = Inr (bind_float f)"
| "real_column (IntA i) =
     (if fits_int64 i then Inr (Some (round_double (of_int i))) else Inl int_too_large)"
| "real_column (BoolA b) = Inr (Some (Fin (if b then 1 else 0)))"

text \<open>
  One \<open>cursor.execute\<close> of the INSERT with the cells of a row: the statement is prepared
  (which fails when the table is missing), the four parameters are bound in order, and
  the statement is run.
\<close>

definition execute_insert_row :: "conn \<Rightarrow> csv_row \<Rightarrow> exn + conn" where
  "execute_insert_row c r =
     (case transactions (current c) of
        None \<Rightarrow> Inl no_such_table
      | Some _ \<Rightarrow>
          (case text_column (cell_date r) of
             Inl e \<Rightarrow> Inl e
           | Inr date \<Rightarrow>
               (case text_column (cell_category r) of
                  Inl e \<Rightarrow> Inl e
                | Inr category \<Rightarrow>
                    (case real_column (cell_amount r) of
                       Inl e \<Rightarrow> Inl e
                     | Inr amount \<Rightarrow>
                         (case text_column (cell_description r) of
                            Inl e \<Rightarrow> Inl e
                          | Inr description \<Rightarrow>
                              execute_insert c date category amount description)))))"

definition required_columns :: "string list" where
  "required_columns = [''date'', ''category'', ''amount'', ''description'']"

text \<open>
  The loop over \<open>df.iterrows()\<close>: the first INSERT that fails ends it, with the exception and
  the connection as it is then.
\<close>

fun insert_rows :: "conn \<Rightarrow> csv_row list \<Rightarrow> (exn \<times> conn) + conn" where
  "insert_rows c [] = Inr c"
| "insert_rows c (r # rs) =
     (case execute_insert_row c r of
        Inl e \<Rightarrow> Inl (e, c)
      | Inr c' \<Rightarrow> insert_rows c' rs)"

text \<open>
  \<^verbatim>\<open>
  def upload_csv():
      file_path = filedialog.askopenfilename(filetypes=[("CSV Files", "*.csv")])
      if file_path:
          try:
              df = pd.read_csv(file_path)
              required_columns = ['date', 'category', 'amount', 'description']
              if not all(col in df.columns for col in required_columns):
                  messagebox.showerror("Invalid CSV", "CSV must contain columns: ...")
                  return
              conn = sqlite3.connect(DB_NAME)
              cursor = conn.cursor()
              for _, row in df.iterrows():
                  cursor.execute("""INSERT INTO transactions (date, category, amount, description)
                                    VALUES (?, ?, ?, ?);""",
                                 (row['date'], row['category'], row['amount'], row['description']))
              conn.commit()
              conn.close()
              messagebox.showinfo("CSV Upload", "CSV file uploaded successfully.")
          except Exception as e:
              messagebox.showerror("Error", f"Failed to upload CSV: {e}")
  \<close>
  The arguments are the path the file dialog returns (empty when it is cancelled) and what
  \<open>pd.read_csv\<close> makes of a path (a frame, or the exception it raises). The result is the
  message box shown, if any, and the database file afterwards. When an exception ends the
  \<open>try\<close> block the connection is neither committed nor closed: it is dropped with the
  function's frame, and its open transaction is rolled back when the connection object is
  finalised (at once or at the next garbage collection, depending on the Python version;
  until then the connection keeps its write lock on the file, which is not modelled).
  The same holds for the \<open>except\<close> branches of \<open>init_db\<close> and \<open>add_transaction\<close>.
\<close>

definition upload_csv ::
  "string \<Rightarrow> (string \<Rightarrow> exn + dataframe) \<Rightarrow> db \<Rightarrow> dialog option \<times> db" where
  "upload_csv file_path read_csv d =
     (if file_path = [] then (None, d)
      else
        (case read_csv file_path of
           Inl e \<Rightarrow> (Some (ShowError ''Error'' (''Failed to upload CSV: '' @ str_exn e)), d)
         | Inr df \<Rightarrow>
             if \<not> list_all (\<lambda>col. col \<in> set (df_columns df)) required_columns
             then (Some (ShowError ''Invalid CSV''
                     ''CSV must contain columns: date, category, amount, description.''), d)
             else
               (case insert_rows (connect d) (df_rows df) of
                  Inl (e, c) \<Rightarrow>
                    (Some (ShowError ''Error'' (''Failed to upload CSV: '' @ str_exn e)),
                     abandon c)
                | Inr c \<Rightarrow>
                    (Some (ShowInfo ''CSV Upload'' ''CSV file uploaded successfully.''),
                     close (commit c)))))"

text \<open>
  The rows the INSERT accepts: those whose four cells can be bound and that give a value
  to each of the NOT NULL columns.
\<close>

fun has_value :: "exn + 'a option \<Rightarrow> bool" where
  "has_value (Inr (Some v)) = True"
| "has_value (Inr None) = False"
| "has_value (Inl e) = False"

definition insertable :: "csv_row \<Rightarrow> bool" where
  "insertable r =
     (has_value (text_column (cell_date r)) \<and> has_value (text_column (cell_category r))
      \<and> has_value (real_column (cell_amount r)) \<and> \<not> isl (text_column (cell_description r)))"

text \<open>A file system in which \<open>pd.read_csv\<close> reads the given frame at every path.\<close>

definition read_as :: "dataframe \<Rightarrow> string \<Rightarrow> exn + dataframe" where
  "read_as df path = Inr df"

section \<open>The HTTP query API\<close>

text \<open>
  A handler gets the query parameters of the request (\<open>request.args\<close>, a parameter's first
  value) and the database file, and returns a status code and a JSON body. An exception
  that no handler catches becomes the response 500. The model also returns the SQL
  statements the handler executed, in order.
\<close>

datatype body =
    JsonError string
  | Rows "txn list"
  | Summary "(string option \<times> pyfloat option) list"
  | Unhandled exn

datatype response = Response nat body

type_synonym args = "string \<rightharpoonup> string"

definition db_connection :: "db \<Rightarrow> conn" where
  "db_connection d = connect d"

definition fetchall :: "string \<Rightarrow> (conn \<Rightarrow> exn + txn list) \<Rightarrow> db \<Rightarrow> response \<times> string list" where
  "fetchall sql query d =
     (case query (db_connection d) of
        Inl e \<Rightarrow> (Response 500 (Unhandled e), [sql])
      | Inr ts \<Rightarrow> (Response 200 (Rows ts), [sql]))"

text \<open>\<open>not v\<close> for the value of \<open>request.args.get(key)\<close>: true for \<open>None\<close> and for the empty string.\<close>

definition not_str :: "string option \<Rightarrow> bool" where
  "not_str v = (case v of None \<Rightarrow> True | Some s \<Rightarrow> s = [])"

text \<open>\<open>get_all_transactions\<close>: \<^verbatim>\<open>SELECT * FROM transactions;\<close>\<close>

definition get_all_transactions :: "db \<Rightarrow> response \<times> string list" where
  "get_all_transactions d = fetchall ''SELECT * FROM transactions;'' select_all d"

text \<open>
  \<^verbatim>\<open>
  def get_transactions_by_date_range():
      start_date = request.args.get('start_date')
      end_date = request.args.get('end_date')
      if not start_date or not end_date:
          return jsonify({"error": "Both 'start_date' and 'end_date' are required"}), 400
      ...
      cursor.execute("SELECT * FROM transactions WHERE date BETWEEN ? AND ?;", (start_date, end_date))
  \<close>
  Text is compared code point by code point.
\<close>

definition both_dates_required :: body where
  "both_dates_required =
     JsonError (''Both '' @ [CHR 0x27] @ ''start_date'' @ [CHR 0x27] @ '' and ''
                @ [CHR 0x27] @ ''end_date'' @ [CHR 0x27] @ '' are required'')"

definition get_transactions_by_date_range :: "args \<Rightarrow> db \<Rightarrow> response \<times> string list" where
  "get_transactions_by_date_range args d =
     (let start_date = args ''start_date''; end_date = args ''end_date'' in
      if not_str start_date \<or> not_str end_date
      then (Response 400 both_dates_required, [])
      else fetchall ''SELECT * FROM transactions WHERE date BETWEEN ? AND ?;''
             (select_where (\<lambda>r. the start_date \<le> txn_date r \<and> txn_date r \<le> the end_date)) d)"

text \<open>
  \<^verbatim>\<open>
  def get_transactions_by_category():
      category = request.args.get('category')
      if not category:
          return jsonify({"error": "'category' parameter is required"}), 400
      ...
      cursor.execute("SELECT * FROM transactions WHERE category = ?;", (category,))
  \<close>
\<close>

definition parameter_is_required :: "string \<Rightarrow> body" where
  "parameter_is_required name =
     JsonError ([CHR 0x27] @ name @ [CHR 0x27] @ '' parameter is required'')"

definition get_transactions_by_category :: "args \<Rightarrow> db \<Rightarrow> response \<times> string list" where
  "get_transactions_by_category args d =
     (let category = args ''category'' in
      if not_str category
      then (Response 400 (parameter_is_required ''category''), [])
      else fetchall ''SELECT * FROM transactions WHERE category = ?;''
             (select_where (\<lambda>r. txn_category r = the category)) d)"

text \<open>
  \<^verbatim>\<open>
  def get_transactions_above_amount():
      min_amount = request.args.get('min_amount', type=float)
      if not min_amount:
          return jsonify({"error": "'min_amount' parameter is required"}), 400
      ...
      cursor.execute("SELECT * FROM transactions WHERE amount > ?;", (min_amount,))
  \<close>
  \<open>args.get(key, type=float)\<close> is \<open>None\<close> when the key is missing and when \<open>float\<close> raises
  \<open>ValueError\<close> on its value. A comparison with NULL selects no row.
\<close>

definition args_get_float :: "args \<Rightarrow> string \<Rightarrow> pyfloat option" where
  "args_get_float args key = (case args key of None \<Rightarrow> None | Some v \<Rightarrow> py_float v)"

definition not_float :: "pyfloat option \<Rightarrow> bool" where
  "not_float v = (case v of None \<Rightarrow> True | Some f \<Rightarrow> \<not> float_bool f)"

definition amount_above :: "pyfloat option \<Rightarrow> txn \<Rightarrow> bool" where
  "amount_above bound r = (case bound of None \<Rightarrow> False | Some b \<Rightarrow> float_less b (txn_amount r))"

definition get_transactions_above_amount :: "args \<Rightarrow> db \<Rightarrow> response \<times> string list" where
  "get_transactions_above_amount args d =
     (let min_amount = args_get_float args ''min_amount'' in
      if not_float min_amount
      then (Response 400 (parameter_is_required ''min_amount''), [])
      else fetchall ''SELECT * FROM transactions WHERE amount > ?;''
             (select_where (amount_above (bind_float (the min_amount)))) d)"

text \<open>
  SQLite's \<open>LIKE\<close> compares the pattern and the text as C strings: each ends at its first
  NUL character, if it has one. In the pattern \<open>%\<close> matches any sequence of characters and
  \<open>_\<close> any one character; any other character matches itself, the letters \<open>A\<close> to \<open>Z\<close> and
  \<open>a\<close> to \<open>z\<close> without regard to case. \<open>NULL LIKE pattern\<close> selects no row. A pattern of
  more than 50000 bytes (in UTF-8, the bytes after a NUL included) is an error as soon as
  a row is looked at.
\<close>

definition c_string :: "string \<Rightarrow> string" where
  "c_string s = takeWhile (\<lambda>c. c \<noteq> CHR 0x00) s"

fun patternCompare :: "string \<Rightarrow> string \<Rightarrow> bool" where
  "patternCompare [] [] = True"
| "patternCompare [] (c # cs) = False"
| "patternCompare (p # ps) [] = (p = CHR ''%'' \<and> patternCompare ps [])"
| "patternCompare (p # ps) (c # cs) =
     (if p = CHR ''%'' then patternCompare ps (c # cs) \<or> patternCompare (p # ps) cs
      else (p = CHR ''_'' \<or> lower p = lower c) \<and> patternCompare ps cs)"

definition like :: "string \<Rightarrow> string \<Rightarrow> bool" where
  "like pat s = patternCompare (c_string pat) (c_string s)"

text \<open>A pattern character other than \<open>%\<close> against a character of the text.\<close>

definition like_char :: "char \<Rightarrow> char \<Rightarrow> bool" where
  "like_char p c = (p = CHR ''_'' \<or> lower p = lower c)"

definition utf8_length :: "string \<Rightarrow> nat" where
  "utf8_length s = length s + length (filter (\<lambda>c. (128::nat) \<le> of_char c) s)"

definition description_like :: "string \<Rightarrow> txn \<Rightarrow> bool" where
  "description_like pat r = (case txn_description r of None \<Rightarrow> False | Some d \<Rightarrow> like pat d)"

definition select_like :: "string \<Rightarrow> conn \<Rightarrow> exn + txn list" where
  "select_like pat c =
     (case transactions (current c) of
        None \<Rightarrow> Inl no_such_table
      | Some t \<Rightarrow>
          if rows t \<noteq> [] \<and> 50000 < utf8_length pat
          then Inl (OperationalError ''LIKE or GLOB pattern too complex'')
          else Inr (filter (description_like pat) (rows t)))"

text \<open>
  \<^verbatim>\<open>
  def get_transactions_by_keyword():
      keyword = request.args.get('keyword')
      if not keyword:
          return jsonify({"error": "'keyword' parameter is required"}), 400
      ...
      cursor.execute("SELECT * FROM transactions WHERE description LIKE ?;", (f"%{keyword}%",))
  \<close>
\<close>

definition get_transactions_by_keyword :: "args \<Rightarrow> db \<Rightarrow> response \<times> string list" where
  "get_transactions_by_keyword args d =
     (let keyword = args ''keyword'' in
      if not_str keyword
      then (Response 400 (parameter_is_required ''keyword''), [])
      else fetchall ''SELECT * FROM transactions WHERE description LIKE ?;''
             (select_like (''%'' @ the keyword @ ''%'')) d)"

text \<open>
  SQLite's \<open>strftime('%Y-%m', date)\<close> reads the text as a time value and gives the year and
  month of that moment, or NULL when the text is no time value. For a text of the form
  \<open>YYYY-MM-DD\<close> (followed at most by white space and \<open>T\<close>s) the month must be \<open>01\<close> to \<open>12\<close> and
  the day \<open>01\<close> to \<open>31\<close>; a day past the end of its month counts on into the next month
  (\<open>2024-02-30\<close> is the first of March), but for \<open>0300-02-29\<close>, which SQLite's conversion
  from the Julian day number leaves in February. What SQLite makes of any other text (a date with a
  time of day or a time zone, a Julian day number, \<open>now\<close>) is the parameter \<open>other\<close>.
\<close>

definition leap_year :: "int \<Rightarrow> bool" where
  "leap_year y = (y mod 4 = 0 \<and> (y mod 100 \<noteq> 0 \<or> y mod 400 = 0))"

definition days_in_month :: "int \<Rightarrow> int \<Rightarrow> int" where
  "days_in_month y m =
     (if m = 2 then (if leap_year y then 29 else 28)
      else if m = 4 \<or> m = 6 \<or> m = 9 \<or> m = 11 then 30 else 31)"

definition two_digits :: "int \<Rightarrow> string" where
  "two_digits n = [''0123456789'' ! nat (n div 10), ''0123456789'' ! nat (n mod 10)]"

definition sqlite_space :: "char \<Rightarrow> bool" where
  "sqlite_space c = (c \<in> set [CHR 0x09, CHR 0x0A, CHR 0x0B, CHR 0x0C, CHR 0x0D, CHR 0x20])"

definition plain_date :: "string \<Rightarrow> bool" where
  "plain_date date =
     (date_shape (take 10 date) \<and> list_all (\<lambda>c. sqlite_space c \<or> c = CHR ''T'') (drop 10 date))"

definition strftime_ym :: "(string \<rightharpoonup> string) \<Rightarrow> string \<Rightarrow> string option" where
  "strftime_ym other date =
     (if plain_date date then
        (let y = int (digits_val (take 4 date));
             m = int (digits_val (take 2 (drop 5 date)));
             dd = int (digits_val (take 2 (drop 8 date)))
         in if 1 \<le> m \<and> m \<le> 12 \<and> 1 \<le> dd \<and> dd \<le> 31
            then Some (if dd \<le> days_in_month y m \<or> (y = 300 \<and> m = 2 \<and> dd = 29)
                       then take 7 date
                       else take 5 date @ two_digits (m + 1))
            else None)
      else other date)"

text \<open>
  \<open>SUM(amount)\<close> over the rows of a group, all of them REAL: SQLite (since version 3.43)
  keeps a running sum and a running error term (Kahan-Babuska-Neumaier summation), adds
  the amounts in row order and returns the sum plus the error term, or the sum alone when
  the error term is infinite or NaN. A NaN result is NULL. Earlier versions add the
  amounts without the error term, which can differ in the last bit.
\<close>

fun float_neg :: "pyfloat \<Rightarrow> pyfloat" where
  "float_neg (Fin a) = Fin (- a)"
| "float_neg PInf = NInf"
| "float_neg NInf = PInf"
| "float_neg NaN = NaN"

definition float_sub :: "pyfloat \<Rightarrow> pyfloat \<Rightarrow> pyfloat" where
  "float_sub a b = float_add a (float_neg b)"

fun float_abs :: "pyfloat \<Rightarrow> pyfloat" where
  "float_abs (Fin a) = Fin \<bar>a\<bar>"
| "float_abs PInf = PInf"
| "float_abs NInf = PInf"
| "float_abs NaN = NaN"

record sum_ctx =
  rSum :: pyfloat
  rErr :: pyfloat

definition kahanBabuskaNeumaierStep :: "sum_ctx \<Rightarrow> pyfloat \<Rightarrow> sum_ctx" where
  "kahanBabuskaNeumaierStep p r =
     (let s = rSum p; t = float_add s r in
      \<lparr>rSum = t,
       rErr = float_add (rErr p)
                (if float_less (float_abs r) (float_abs s)
                 then float_add (float_sub s t) r
                 else float_add (float_sub r t) s)\<rparr>)"

definition is_overflow :: "pyfloat \<Rightarrow> bool" where
  "is_overflow f = (case f of Fin _ \<Rightarrow> False | _ \<Rightarrow> True)"

definition sql_sum :: "pyfloat list \<Rightarrow> pyfloat option" where
  "sql_sum xs =
     (if xs = [] then None
      else let p = foldl kahanBabuskaNeumaierStep \<lparr>rSum = Fin 0, rErr = Fin 0\<rparr> xs in
           bind_float (if is_overflow (rErr p) then rSum p else float_add (rSum p) (rErr p)))"

text \<open>
  \<^verbatim>\<open>
  def get_monthly_spending_summary():
      ...
      cursor.execute("""
          SELECT strftime('%Y-%m', date) AS month, SUM(amount) AS total_spent
          FROM transactions
          GROUP BY month;
      """)
  \<close>
  SQLite groups by sorting on the month, so the groups come out in ascending order of the
  month, the NULL month first.
\<close>

definition group_by_sum :: "(txn \<Rightarrow> string option) \<Rightarrow> txn list \<Rightarrow> (string option \<times> pyfloat option) list" where
  "group_by_sum key ts =
     map (\<lambda>k. (k, sql_sum (map txn_amount (filter (\<lambda>r. key r = k) ts))))
       (sort (remdups (map key ts)))"

definition select_monthly_summary ::
  "(string \<rightharpoonup> string) \<Rightarrow> conn \<Rightarrow> exn + (string option \<times> pyfloat option) list" where
  "select_monthly_summary other c =
     (case transactions (current c) of
        None \<Rightarrow> Inl no_such_table
      | Some t \<Rightarrow> Inr (group_by_sum (\<lambda>r. strftime_ym other (txn_date r)) (rows t)))"

definition monthly_summary_sql :: string where
  "monthly_summary_sql =
     ''SELECT strftime('' @ [CHR 0x27] @ ''%Y-%m'' @ [CHR 0x27]
       @ '', date) AS month, SUM(amount) AS total_spent FROM transactions GROUP BY month;''"

definition get_monthly_spending_summary ::
  "(string \<rightharpoonup> string) \<Rightarrow> db \<Rightarrow> response \<times> string list" where
  "get_monthly_spending_summary other d =
     (case select_monthly_summary other (db_connection d) of
        Inl e \<Rightarrow> (Response 500 (Unhandled e), [monthly_summary_sql])
      | Inr summary \<Rightarrow> (Response 200 (Summary summary), [monthly_summary_sql]))"

section \<open>The specification's wording\<close>

text \<open>
  The monthly summary as the specification words it: the month of a record is the first 7
  characters of its date; the amounts are summed per month; the pairs are in ascending
  order of the month.
\<close>

definition summaryByMonth_spec :: "txn list \<Rightarrow> (string option \<times> pyfloat option) list" where
  "summaryByMonth_spec ts = group_by_sum (\<lambda>r. Some (take 7 (txn_date r))) ts"

text \<open>
  The keyword selection as the specification words it: the records whose description
  contains the keyword, character for character.
\<close>

definition selectByKeyword_spec :: "string \<Rightarrow> txn list \<Rightarrow> txn list" where
  "selectByKeyword_spec keyword ts =
     filter (\<lambda>r. case txn_description r of None \<Rightarrow> False | Some d \<Rightarrow> sublist keyword d) ts"

text \<open>
  The keyword selection without regard to the case of the letters \<open>A\<close> to \<open>Z\<close>: the records
  whose description, read up to its first NUL character if it has one, contains the
  keyword once both are put in lower case.
\<close>

definition selectByKeyword_nocase :: "string \<Rightarrow> txn list \<Rightarrow> txn list" where
  "selectByKeyword_nocase keyword ts =
     filter (\<lambda>r. case txn_description r of
                  None \<Rightarrow> False
                | Some d \<Rightarrow> sublist (map lower keyword) (map lower (c_string d))) ts"

text \<open>
  The amount selection as the specification words it: the records whose amount is strictly
  greater than the bound.
\<close>

definition selectAboveAmount_spec :: "pyfloat \<Rightarrow> txn list \<Rightarrow> txn list" where
  "selectAboveAmount_spec min_amount ts = filter (\<lambda>r. float_less min_amount (txn_amount r)) ts"

text \<open>
  A calendar date in the form \<open>YYYY-MM-DD\<close>: the month is \<open>01\<close> to \<open>12\<close> and the day exists in
  that month of that year.
\<close>

definition calendar_date :: "string \<Rightarrow> bool" where
  "calendar_date date =
     (date_shape date \<and>
      (let y = int (digits_val (take 4 date));
           m = int (digits_val (take 2 (drop 5 date)));
           dd = int (digits_val (take 2 (drop 8 date)))
       in 1 \<le> m \<and> m \<le> 12 \<and> 1 \<le> dd \<and> dd \<le> days_in_month y m))"

section \<open>Example data\<close>

definition food_row :: txn where
  "food_row = \<lparr>txn_id = 1, txn_date = ''2024-05-01'', txn_category = ''Food'',
                txn_amount = Fin 5, txn_description = Some ''Food transaction''\<rparr>"

definition one_row_db :: db where
  "one_row_db = \<lparr>transactions = Some \<lparr>rows = [food_row], seq = 1\<rparr>\<rparr>"

definition no_table_db :: db where
  "no_table_db = \<lparr>transactions = None\<rparr>"

definition empty_db :: db where
  "empty_db = \<lparr>transactions = Some \<lparr>rows = [], seq = 0\<rparr>\<rparr>"

text \<open>
  A CSV file whose columns are out of order, with an extra column, and whose rows would not
  pass \<open>validate_date\<close> or \<open>validate_amount\<close>. The third row has a whole number for its date
  and for its amount, and an empty description.
\<close>

definition unvalidated_csv :: dataframe where
  "unvalidated_csv =
     \<lparr>df_columns = [''amount'', ''note'', ''date'', ''description'', ''category''],
      df_rows =
        [\<lparr>cell_date = Str ''01-05-2024'', cell_category = Str ''Food'',
          cell_amount = Float (Fin (- 50)), cell_description = Str ''refund''\<rparr>,
         \<lparr>cell_date = Str ''2024-05-02'', cell_category = Str ''Rent'',
          cell_amount = Float (Fin 0), cell_description = Missing\<rparr>,
         \<lparr>cell_date = IntT 20240503, cell_category = Str ''Rent'',
          cell_amount = IntA (- 700), cell_description = Missing\<rparr>]\<rparr>"

text \<open>A CSV file with the four columns whose second row has an empty date cell.\<close>

definition missing_date_csv :: dataframe where
  "missing_date_csv =
     \<lparr>df_columns = [''date'', ''category'', ''amount'', ''description''],
      df_rows =
        [\<lparr>cell_date = Str ''2024-05-01'', cell_category = Str ''Food'',
          cell_amount = Float (Fin 12), cell_description = Str ''lunch''\<rparr>,
         \<lparr>cell_date = Missing, cell_category = Str ''Rent'',
          cell_amount = Float (Fin 700), cell_description = Str ''May''\<rparr>]\<rparr>"

text \<open>
  A CSV file with the four columns whose second row has the amount 9223372036854775808,
  one more than SQLite's largest INTEGER.
\<close>

definition large_amount_csv :: dataframe where
  "large_amount_csv =
     \<lparr>df_columns = [''date'', ''category'', ''amount'', ''description''],
      df_rows =
        [\<lparr>cell_date = Str ''2024-05-01'', cell_category = Str ''Food'',
          cell_amount = IntA 12, cell_description = Str ''lunch''\<rparr>,
         \<lparr>cell_date = Str ''2024-05-02'', cell_category = Str ''Rent'',
          cell_amount = IntA 9223372036854775808, cell_description = Str ''May''\<rparr>]\<rparr>"

text \<open>A CSV file without the column \<open>amount\<close>.\<close>

definition no_amount_csv :: dataframe where
  "no_amount_csv =
     \<lparr>df_columns = [''date'', ''category'', ''description''],
      df_rows =
        [\<lparr>cell_date = Str ''2024-05-01'', cell_category = Str ''Food'',
          cell_amount = Float NaN, cell_description = Str ''lunch''\<rparr>]\<rparr>"

text \<open>
  Records whose descriptions have the word \<open>lunch\<close> in capitals, after a NUL character,
  and not at all.
\<close>

definition lunch_rows :: "txn list" where
  "lunch_rows =
     [\<lparr>txn_id = 1, txn_date = ''2024-05-01'', txn_category = ''Food'',
       txn_amount = Fin 12, txn_description = Some ''Team LUNCH''\<rparr>,
      \<lparr>txn_id = 2, txn_date = ''2024-05-02'', txn_category = ''Food'',
       txn_amount = Fin 9, txn_description = Some (''abc'' @ [CHR 0x00] @ ''lunch'')\<rparr>,
      \<lparr>txn_id = 3, txn_date = ''2024-05-03'', txn_category = ''Rent'',
       txn_amount = Fin 700, txn_description = None\<rparr>,
      \<lparr>txn_id = 4, txn_date = ''2024-05-04'', txn_category = ''Food'',
       txn_amount = Fin 3, txn_description = Some ''coffee''\<rparr>]"

definition lunch_db :: db where
  "lunch_db = \<lparr>transactions = Some \<lparr>rows = lunch_rows, seq = 4\<rparr>\<rparr>"

text \<open>Two records whose dates pass \<open>validate_date\<close> and have no month of the calendar.\<close>

definition month13_rows :: "txn list" where
  "month13_rows =
     [\<lparr>txn_id = 1, txn_date = ''2024-13-01'', txn_category = ''Food'',
       txn_amount = Fin 1, txn_description = Some ''a''\<rparr>,
      \<lparr>txn_id = 2, txn_date = ''2024-14-01'', txn_category = ''Food'',
       txn_amount = Fin 2, txn_description = Some ''b''\<rparr>]"

definition month13_db :: db where
  "month13_db = \<lparr>transactions = Some \<lparr>rows = month13_rows, seq = 2\<rparr>\<rparr>"

text \<open>Records of June and May 2024, the first and the last day of May among them.\<close>

definition may_rows :: "txn list" where
  "may_rows =
     [\<lparr>txn_id = 1, txn_date = ''2024-06-15'', txn_category = ''Rent'',
       txn_amount = Fin 700, txn_description = None\<rparr>,
      \<lparr>txn_id = 2, txn_date = ''2024-05-01'', txn_category = ''Food'',
       txn_amount = Fin 10, txn_description = Some ''lunch''\<rparr>,
      \<lparr>txn_id = 3, txn_date = ''2024-05-31'', txn_category = ''Food'',
       txn_amount = Fin (5 / 2), txn_description = Some ''coffee''\<rparr>]"

definition may_db :: db where
  "may_db = \<lparr>transactions = Some \<lparr>rows = may_rows, seq = 3\<rparr>\<rparr>"

section \<open>Properties\<close>

text \<open>
  Claim C1. Whatever the database file held before, \<open>init_db\<close> succeeds and leaves the
  table \<open>transactions\<close> in place with no rows (and a fresh id sequence), so that no row
  stored before the call is left: selecting all rows right afterwards gives the empty
  list, and the view reports that there are no transactions.
\<close>

theorem init_db_resets_store:
  "init_db d = (''Database initialized successfully.'',
                \<lparr>transactions = Some \<lparr>rows = [], seq = 0\<rparr>\<rparr>)
   \<and> select_all (connect (snd (init_db d))) = Inr []
   \<and> view_transactions (snd (init_db d)) = Dialog (ShowInfo ''No Data'' ''No transactions found.'')"
  by (cases "transactions d")
     (auto simp: init_db_def connect_def drop_table_if_exists_def create_table_if_not_exists_def
        ddl_def commit_def close_def abandon_def current_def select_all_def select_where_def
        view_transactions_def)

subsection \<open>Evaluation\<close>

lemma bit_length_nonpos [simp]: "n \<le> 0 \<Longrightarrow> bit_length n = 0"
  by (simp add: bit_length.simps)

lemma bit_length_pos [simp]: "0 < n \<Longrightarrow> bit_length n = 1 + bit_length (n div 2)"
  by (subst bit_length.simps) simp

lemmas round_double_eval = round_double_def ilog2_def pow2_def round_half_even_def Let_def

lemmas py_float_eval =
  py_float_def strip_def float_space_def parse_inf_or_nan_def parse_decimal_def
  parse_exponent_def strip_sign_def lower_def is_digit_def digit_val_def digits_val_def
  pow10_def

lemma py_float_zero: "py_float ''0'' = Some (Fin 0)"
  by (simp add: py_float_eval round_double_def)

lemma py_float_abc: "py_float ''abc'' = None"
  by (simp add: py_float_eval)

lemma py_float_minus_50: "py_float ''-50'' = Some (Fin (- 50))"
  by (simp add: py_float_eval round_double_eval)

subsection \<open>Missing and unusable query parameters\<close>

text \<open>
  Claim C8. A request that lacks a required query parameter (\<open>start_date\<close> or \<open>end_date\<close> of
  the date range, \<open>category\<close>, \<open>min_amount\<close>, \<open>keyword\<close>) is answered with status 400 and an
  error message, whatever the database holds, and the handler executes no SQL statement.
\<close>

theorem missing_parameter_is_400:
  "(args ''start_date'' = None \<or> args ''end_date'' = None \<longrightarrow>
      get_transactions_by_date_range args d = (Response 400 both_dates_required, []))
   \<and> (args ''category'' = None \<longrightarrow>
      get_transactions_by_category args d = (Response 400 (parameter_is_required ''category''), []))
   \<and> (args ''min_amount'' = None \<longrightarrow>
      get_transactions_above_amount args d
        = (Response 400 (parameter_is_required ''min_amount''), []))
   \<and> (args ''keyword'' = None \<longrightarrow>
      get_transactions_by_keyword args d = (Response 400 (parameter_is_required ''keyword''), []))"
  by (auto simp: get_transactions_by_date_range_def get_transactions_by_category_def
        get_transactions_above_amount_def get_transactions_by_keyword_def not_str_def
        args_get_float_def not_float_def)

theorem missing_parameter_is_400_witness:
  "get_transactions_by_date_range [''start_date'' \<mapsto> ''2024-01-01''] one_row_db
     = (Response 400 both_dates_required, [])
   \<and> get_transactions_by_category Map.empty one_row_db
     = (Response 400 (parameter_is_required ''category''), [])
   \<and> get_transactions_above_amount Map.empty one_row_db
     = (Response 400 (parameter_is_required ''min_amount''), [])
   \<and> get_transactions_by_keyword Map.empty no_table_db
     = (Response 400 (parameter_is_required ''keyword''), [])"
  using missing_parameter_is_400 [of "[''start_date'' \<mapsto> ''2024-01-01'']" one_row_db]
    missing_parameter_is_400 [of Map.empty one_row_db]
    missing_parameter_is_400 [of Map.empty no_table_db]
  by simp

text \<open>
  Claim C10. When \<open>min_amount\<close> is given but its value is no number for \<open>float\<close>, or is a
  number equal to zero, \<open>/transactions/above_amount\<close> answers exactly as it does when the
  parameter is missing: status 400 with the "parameter is required" message, and no SQL
  statement is executed.
\<close>

theorem zero_or_unparsable_min_amount_is_400:
  assumes "args ''min_amount'' = Some v"
    and "py_float v = None \<or> py_float v = Some (Fin 0)"
  shows "get_transactions_above_amount args d
           = (Response 400 (parameter_is_required ''min_amount''), [])
         \<and> get_transactions_above_amount args d
           = get_transactions_above_amount (args(''min_amount'' := None)) d"
  using assms
  by (auto simp: get_transactions_above_amount_def args_get_float_def not_float_def
        float_bool_def)

theorem zero_or_unparsable_min_amount_is_400_witness:
  "get_transactions_above_amount [''min_amount'' \<mapsto> ''0''] one_row_db
     = (Response 400 (parameter_is_required ''min_amount''), [])
   \<and> get_transactions_above_amount [''min_amount'' \<mapsto> ''abc''] one_row_db
     = (Response 400 (parameter_is_required ''min_amount''), [])"
  using zero_or_unparsable_min_amount_is_400 [of "[''min_amount'' \<mapsto> ''0'']" "''0''" one_row_db]
    zero_or_unparsable_min_amount_is_400 [of "[''min_amount'' \<mapsto> ''abc'']" "''abc''" one_row_db]
  by (simp add: py_float_zero py_float_abc)

text \<open>
  With a bound that parses to a float other than zero and NaN, the handler does return
  the rows whose amount is strictly greater than the bound.
\<close>

lemma above_amount_nonzero:
  assumes "args ''min_amount'' = Some v" and "py_float v = Some f"
    and "f \<noteq> Fin 0" and "f \<noteq> NaN" and "transactions d = Some t"
  shows "get_transactions_above_amount args d
           = (Response 200 (Rows (selectAboveAmount_spec f (rows t))),
              [''SELECT * FROM transactions WHERE amount > ?;''])"
proof -
  have "amount_above (Some f) = (\<lambda>r. float_less f (txn_amount r))"
    by (simp add: amount_above_def fun_eq_iff)
  with assms show ?thesis
    by (simp add: get_transactions_above_amount_def args_get_float_def not_float_def
          float_bool_def bind_float_def fetchall_def select_where_def db_connection_def
          connect_def current_def selectAboveAmount_spec_def)
qed

text \<open>
  Claim C6, at the bound zero. The request \<open>/transactions/above_amount?min_amount=0\<close> on a
  table whose only row has the amount 5 is answered with status 400 and the message that
  the parameter is required, and no query is run; the rows with an amount strictly
  greater than 0 are that one row.
\<close>

theorem above_amount_zero_is_rejected:
  "get_transactions_above_amount [''min_amount'' \<mapsto> ''0''] one_row_db
     = (Response 400 (parameter_is_required ''min_amount''), [])
   \<and> selectAboveAmount_spec (Fin 0) [food_row] = [food_row]"
  by (simp add: get_transactions_above_amount_def args_get_float_def not_float_def
        float_bool_def py_float_zero selectAboveAmount_spec_def food_row_def)

subsection \<open>CSV import\<close>

lemma digits_text_digit [simp]: "n < 10 \<Longrightarrow> digits_text n = [''0123456789'' ! n]"
  by (simp add: digits_text.simps)

lemma digits_text_more [simp]:
  "10 \<le> n \<Longrightarrow> digits_text n = digits_text (n div 10) @ [''0123456789'' ! (n mod 10)]"
  by (subst digits_text.simps) simp

lemma has_value_iff: "has_value x \<longleftrightarrow> (\<exists>v. x = Inr (Some v))"
  by (cases x rule: has_value.cases) simp_all

lemma not_isl_iff: "\<not> isl x \<longleftrightarrow> (\<exists>v. x = Inr v)"
  by (cases x) simp_all

lemma execute_insert_persisted:
  "execute_insert c a b x y = Inr c' \<Longrightarrow> persisted c' = persisted c"
  by (auto simp: execute_insert_def split: option.splits sum.splits)

lemma execute_insert_row_persisted:
  "execute_insert_row c r = Inr c' \<Longrightarrow> persisted c' = persisted c"
  by (auto simp: execute_insert_row_def split: option.splits sum.splits
        dest: execute_insert_persisted)

lemma insert_rows_persisted:
  "insert_rows c rs = Inr c' \<Longrightarrow> persisted c' = persisted c"
  "insert_rows c rs = Inl (e, c'') \<Longrightarrow> persisted c'' = persisted c"
  by (induction rs arbitrary: c) (auto split: sum.splits dest: execute_insert_row_persisted)

lemma execute_insert_row_ok:
  assumes "transactions (current c) = Some t" "insertable r"
  shows "\<exists>c' n. execute_insert_row c r = Inr c'
          \<and> transactions (current c') = Some \<lparr>rows = rows t @ [n], seq = new_rowid t\<rparr>
          \<and> Inr (Some (txn_date n)) = text_column (cell_date r)
          \<and> Inr (Some (txn_category n)) = text_column (cell_category r)
          \<and> Inr (Some (txn_amount n)) = real_column (cell_amount r)
          \<and> Inr (txn_description n) = text_column (cell_description r)
          \<and> txn_id n = new_rowid t"
proof -
  from assms(2) obtain dv cv av ds where
    "text_column (cell_date r) = Inr (Some dv)" "text_column (cell_category r) = Inr (Some cv)"
    "real_column (cell_amount r) = Inr (Some av)" "text_column (cell_description r) = Inr ds"
    unfolding insertable_def has_value_iff not_isl_iff by blast
  with assms(1) show ?thesis
    by (simp add: execute_insert_row_def execute_insert_def insert_row_def current_def)
qed

lemma execute_insert_row_Inr:
  assumes "execute_insert_row c r = Inr c1"
  shows "transactions (current c) \<noteq> None" and "insertable r"
  using assms
  by (auto simp: execute_insert_row_def execute_insert_def insert_row_def insertable_def
        split: option.splits sum.splits)

lemma insert_rows_ok:
  assumes "transactions (current c) = Some t" "list_all insertable rs"
  shows "\<exists>c' ns sq. insert_rows c rs = Inr c'
          \<and> transactions (current c') = Some \<lparr>rows = rows t @ ns, seq = sq\<rparr>
          \<and> map (\<lambda>n. Inr (Some (txn_date n))) ns = map (\<lambda>r. text_column (cell_date r)) rs
          \<and> map (\<lambda>n. Inr (Some (txn_category n))) ns
              = map (\<lambda>r. text_column (cell_category r)) rs
          \<and> map (\<lambda>n. Inr (Some (txn_amount n))) ns = map (\<lambda>r. real_column (cell_amount r)) rs
          \<and> map (\<lambda>n. Inr (txn_description n)) ns
              = map (\<lambda>r. text_column (cell_description r)) rs"
  using assms
proof (induction rs arbitrary: c t)
  case Nil
  then show ?case by (cases t) auto
next
  case (Cons r rs)
  from Cons.prems have r: "insertable r" and rs: "list_all insertable rs" by auto
  from execute_insert_row_ok [OF Cons.prems(1) r] obtain c1 n where
    c1: "execute_insert_row c r = Inr c1"
    and t1: "transactions (current c1) = Some \<lparr>rows = rows t @ [n], seq = new_rowid t\<rparr>"
    and n: "Inr (Some (txn_date n)) = text_column (cell_date r)"
      "Inr (Some (txn_category n)) = text_column (cell_category r)"
      "Inr (Some (txn_amount n)) = real_column (cell_amount r)"
      "Inr (txn_description n) = text_column (cell_description r)"
    by blast
  from Cons.IH [OF t1 rs] obtain c' ns sq where
    c': "insert_rows c1 rs = Inr c'"
    and t': "transactions (current c') = Some \<lparr>rows = rows t @ n # ns, seq = sq\<rparr>"
    and ns: "map (\<lambda>n. Inr (Some (txn_date n))) ns = map (\<lambda>r. text_column (cell_date r)) rs"
      "map (\<lambda>n. Inr (Some (txn_category n))) ns = map (\<lambda>r. text_column (cell_category r)) rs"
      "map (\<lambda>n. Inr (Some (txn_amount n))) ns = map (\<lambda>r. real_column (cell_amount r)) rs"
      "map (\<lambda>n. Inr (txn_description n)) ns = map (\<lambda>r. text_column (cell_description r)) rs"
    by auto
  show ?case
    apply (rule exI [of _ c'], rule exI [of _ "n # ns"], rule exI [of _ sq])
    using c1 c' t' n ns by simp
qed

lemma insert_rows_fails:
  assumes "(\<exists>r\<in>set rs. \<not> insertable r) \<or> (transactions (current c) = None \<and> rs \<noteq> [])"
  shows "\<exists>e c'. insert_rows c rs = Inl (e, c')"
  using assms
proof (induction rs arbitrary: c)
  case Nil
  then show ?case by simp
next
  case (Cons r rs)
  show ?case
  proof (cases "execute_insert_row c r")
    case (Inl e)
    then show ?thesis by auto
  next
    case (Inr c1)
    from execute_insert_row_Inr [OF Inr] obtain t where
      t: "transactions (current c) = Some t" and r: "insertable r" by auto
    from execute_insert_row_ok [OF t r] Inr
    have "transactions (current c1) \<noteq> None" by auto
    with Cons.prems t r have "\<exists>r\<in>set rs. \<not> insertable r" by auto
    with Cons.IH [of c1] Inr show ?thesis by auto
  qed
qed

text \<open>
  The outcome of \<open>upload_csv\<close> for a frame that passes the column check, by what the INSERT
  loop does.
\<close>

lemma upload_csv_inserted:
  assumes "file_path \<noteq> []" and "read_csv file_path = Inr df"
    and "set required_columns \<subseteq> set (df_columns df)"
    and "transactions d = Some t"
    and "list_all insertable (df_rows df)"
  shows "\<exists>ns sq. upload_csv file_path read_csv d
              = (Some (ShowInfo ''CSV Upload'' ''CSV file uploaded successfully.''),
                 \<lparr>transactions = Some \<lparr>rows = rows t @ ns, seq = sq\<rparr>\<rparr>)
            \<and> map (\<lambda>n. Inr (Some (txn_date n))) ns
                = map (\<lambda>r. text_column (cell_date r)) (df_rows df)
            \<and> map (\<lambda>n. Inr (Some (txn_category n))) ns
                = map (\<lambda>r. text_column (cell_category r)) (df_rows df)
            \<and> map (\<lambda>n. Inr (Some (txn_amount n))) ns
                = map (\<lambda>r. real_column (cell_amount r)) (df_rows df)
            \<and> map (\<lambda>n. Inr (txn_description n)) ns
                = map (\<lambda>r. text_column (cell_description r)) (df_rows df)"
proof -
  let ?c = "connect d"
  have cur: "transactions (current ?c) = Some t"
    using assms(4) by (simp add: connect_def current_def)
  have chk: "list_all (\<lambda>col. col \<in> set (df_columns df)) required_columns"
    using assms(3) by (auto simp: list_all_iff)
  from insert_rows_ok [OF cur assms(5)] obtain c' ns sq where
    c': "insert_rows ?c (df_rows df) = Inr c'"
    and t': "transactions (current c') = Some \<lparr>rows = rows t @ ns, seq = sq\<rparr>"
    and ns: "map (\<lambda>n. Inr (Some (txn_date n))) ns
               = map (\<lambda>r. text_column (cell_date r)) (df_rows df)"
      "map (\<lambda>n. Inr (Some (txn_category n))) ns
         = map (\<lambda>r. text_column (cell_category r)) (df_rows df)"
      "map (\<lambda>n. Inr (Some (txn_amount n))) ns
         = map (\<lambda>r. real_column (cell_amount r)) (df_rows df)"
      "map (\<lambda>n. Inr (txn_description n)) ns
         = map (\<lambda>r. text_column (cell_description r)) (df_rows df)"
    by auto
  have "upload_csv file_path read_csv d
        = (Some (ShowInfo ''CSV Upload'' ''CSV file uploaded successfully.''),
           \<lparr>transactions = Some \<lparr>rows = rows t @ ns, seq = sq\<rparr>\<rparr>)"
    using assms(1,2) chk c' t'
    by (simp add: upload_csv_def commit_def close_def abandon_def)
  with ns show ?thesis by blast
qed

lemma upload_csv_failed:
  assumes "file_path \<noteq> []" and "read_csv file_path = Inr df"
    and "set required_columns \<subseteq> set (df_columns df)"
    and "(\<exists>r\<in>set (df_rows df). \<not> insertable r) \<or> (transactions d = None \<and> df_rows df \<noteq> [])"
  shows "\<exists>e. upload_csv file_path read_csv d
               = (Some (ShowError ''Error'' (''Failed to upload CSV: '' @ str_exn e)), d)"
proof -
  let ?c = "connect d"
  have cur: "current ?c = d" and per: "persisted ?c = d"
    by (simp_all add: connect_def current_def)
  have chk: "list_all (\<lambda>col. col \<in> set (df_columns df)) required_columns"
    using assms(3) by (auto simp: list_all_iff)
  from insert_rows_fails [of "df_rows df" ?c] assms(4) cur obtain e c' where
    f: "insert_rows ?c (df_rows df) = Inl (e, c')"
    by auto
  from insert_rows_persisted(2) [OF f] per have "persisted c' = d"
    by simp
  with f assms(1,2) chk show ?thesis
    by (auto simp: upload_csv_def close_def abandon_def)
qed

lemmas upload_eval =
  upload_csv_def read_as_def required_columns_def connect_def current_def commit_def
  close_def abandon_def execute_insert_row_def execute_insert_def insert_row_def
  bind_float_def new_rowid_def fits_int64_def integer_text_def

text \<open>
  Claim C3. When the header of the CSV file lacks one of the columns \<open>date\<close>, \<open>category\<close>,
  \<open>amount\<close>, \<open>description\<close>, \<open>upload_csv\<close> shows the "Invalid CSV" error and leaves the
  database as it was: no INSERT is attempted. When the four names are among the columns,
  the import proceeds to the INSERTs: if the table exists and every row can be inserted,
  the rows of the file are appended to the table, one record per row with what its cells
  store, and the success message is shown; if some row cannot be inserted, or there are
  rows and no table, the INSERT loop raises and the "Failed to upload CSV" error is shown
  instead. The order of the columns and the presence of other columns make no difference:
  the outcome is the same for every header that contains the four names.
\<close>

theorem upload_csv_requires_columns:
  assumes "file_path \<noteq> []" and "read_csv file_path = Inr df"
  shows "(''date'' \<notin> set (df_columns df) \<or> ''category'' \<notin> set (df_columns df)
          \<or> ''amount'' \<notin> set (df_columns df) \<or> ''description'' \<notin> set (df_columns df) \<longrightarrow>
            upload_csv file_path read_csv d
              = (Some (ShowError ''Invalid CSV''
                   ''CSV must contain columns: date, category, amount, description.''), d))
         \<and> (''date'' \<in> set (df_columns df) \<and> ''category'' \<in> set (df_columns df)
          \<and> ''amount'' \<in> set (df_columns df) \<and> ''description'' \<in> set (df_columns df) \<longrightarrow>
            (\<forall>t. transactions d = Some t \<and> list_all insertable (df_rows df) \<longrightarrow>
               (\<exists>ns sq. upload_csv file_path read_csv d
                    = (Some (ShowInfo ''CSV Upload'' ''CSV file uploaded successfully.''),
                       \<lparr>transactions = Some \<lparr>rows = rows t @ ns, seq = sq\<rparr>\<rparr>)
                  \<and> map (\<lambda>n. Inr (Some (txn_date n))) ns
                      = map (\<lambda>r. text_column (cell_date r)) (df_rows df)
                  \<and> map (\<lambda>n. Inr (Some (txn_category n))) ns
                      = map (\<lambda>r. text_column (cell_category r)) (df_rows df)
                  \<and> map (\<lambda>n. Inr (Some (txn_amount n))) ns
                      = map (\<lambda>r. real_column (cell_amount r)) (df_rows df)
                  \<and> map (\<lambda>n. Inr (txn_description n)) ns
                      = map (\<lambda>r. text_column (cell_description r)) (df_rows df)))
            \<and> ((\<exists>r\<in>set (df_rows df). \<not> insertable r)
                  \<or> (transactions d = None \<and> df_rows df \<noteq> []) \<longrightarrow>
                (\<exists>e. upload_csv file_path read_csv d
                       = (Some (ShowError ''Error'' (''Failed to upload CSV: '' @ str_exn e)),
                          d)))
            \<and> (\<forall>columns. set required_columns \<subseteq> set columns \<longrightarrow>
                  upload_csv file_path (read_as (df\<lparr>df_columns := columns\<rparr>)) d
                    = upload_csv file_path read_csv d))"
proof -
  have a: "upload_csv file_path read_csv d
              = (Some (ShowError ''Invalid CSV''
                   ''CSV must contain columns: date, category, amount, description.''), d)"
    if "''date'' \<notin> set (df_columns df) \<or> ''category'' \<notin> set (df_columns df)
          \<or> ''amount'' \<notin> set (df_columns df) \<or> ''description'' \<notin> set (df_columns df)"
    using that assms by (auto simp: upload_csv_def required_columns_def)
  have b: "upload_csv file_path (read_as (df\<lparr>df_columns := columns\<rparr>)) d
             = upload_csv file_path read_csv d"
    if "set required_columns \<subseteq> set (df_columns df)" "set required_columns \<subseteq> set columns"
    for columns
    using that assms by (simp add: upload_csv_def read_as_def list_all_iff subset_iff)
  have c: "set required_columns \<subseteq> set (df_columns df)"
    if "''date'' \<in> set (df_columns df) \<and> ''category'' \<in> set (df_columns df)
          \<and> ''amount'' \<in> set (df_columns df) \<and> ''description'' \<in> set (df_columns df)"
    using that by (simp add: required_columns_def)
  show ?thesis
    using a b c
      upload_csv_inserted [where file_path = file_path and read_csv = read_csv and df = df and d = d, OF assms]
      upload_csv_failed [where file_path = file_path and read_csv = read_csv and df = df and d = d, OF assms]
    by (intro conjI impI allI) blast+
qed

theorem upload_csv_requires_columns_witness:
  "upload_csv ''bank.csv'' (read_as no_amount_csv) one_row_db
     = (Some (ShowError ''Invalid CSV''
          ''CSV must contain columns: date, category, amount, description.''), one_row_db)
   \<and> upload_csv ''bank.csv'' (read_as unvalidated_csv) one_row_db
     = (Some (ShowInfo ''CSV Upload'' ''CSV file uploaded successfully.''),
        \<lparr>transactions = Some
           \<lparr>rows = [food_row,
                    \<lparr>txn_id = 2, txn_date = ''01-05-2024'', txn_category = ''Food'',
                      txn_amount = Fin (- 50), txn_description = Some ''refund''\<rparr>,
                    \<lparr>txn_id = 3, txn_date = ''2024-05-02'', txn_category = ''Rent'',
                      txn_amount = Fin 0, txn_description = None\<rparr>,
                    \<lparr>txn_id = 4, txn_date = ''20240503'', txn_category = ''Rent'',
                      txn_amount = Fin (- 700), txn_description = None\<rparr>],
             seq = 4\<rparr>\<rparr>)
   \<and> upload_csv ''bank.csv''
       (read_as (unvalidated_csv\<lparr>df_columns := required_columns\<rparr>)) one_row_db
     = upload_csv ''bank.csv'' (read_as unvalidated_csv) one_row_db"
proof -
  have r: "round_double (- 700) = Fin (- 700)"
    by (simp add: round_double_eval)
  have q: "''bank.csv'' \<noteq> []"
    by simp
  have p: "read_as no_amount_csv ''bank.csv'' = Inr no_amount_csv"
    "read_as unvalidated_csv ''bank.csv'' = Inr unvalidated_csv"
    by (simp_all add: read_as_def)
  have m: "''amount'' \<notin> set (df_columns no_amount_csv)"
    by (simp add: no_amount_csv_def)
  have n: "''date'' \<in> set (df_columns unvalidated_csv)"
    "''category'' \<in> set (df_columns unvalidated_csv)"
    "''amount'' \<in> set (df_columns unvalidated_csv)"
    "''description'' \<in> set (df_columns unvalidated_csv)"
    by (simp_all add: unvalidated_csv_def)
  from upload_csv_requires_columns [where file_path = "''bank.csv''"
      and read_csv = "read_as no_amount_csv" and df = no_amount_csv and d = one_row_db, OF q p(1)] m
  have 1: "upload_csv ''bank.csv'' (read_as no_amount_csv) one_row_db
     = (Some (ShowError ''Invalid CSV''
          ''CSV must contain columns: date, category, amount, description.''), one_row_db)"
    by blast
  have 2: "upload_csv ''bank.csv'' (read_as unvalidated_csv) one_row_db
     = (Some (ShowInfo ''CSV Upload'' ''CSV file uploaded successfully.''),
        \<lparr>transactions = Some
           \<lparr>rows = [food_row,
                    \<lparr>txn_id = 2, txn_date = ''01-05-2024'', txn_category = ''Food'',
                      txn_amount = Fin (- 50), txn_description = Some ''refund''\<rparr>,
                    \<lparr>txn_id = 3, txn_date = ''2024-05-02'', txn_category = ''Rent'',
                      txn_amount = Fin 0, txn_description = None\<rparr>,
                    \<lparr>txn_id = 4, txn_date = ''20240503'', txn_category = ''Rent'',
                      txn_amount = Fin (- 700), txn_description = None\<rparr>],
             seq = 4\<rparr>\<rparr>)"
    by (simp add: upload_eval unvalidated_csv_def one_row_db_def food_row_def r)
  from upload_csv_requires_columns [where file_path = "''bank.csv''"
      and read_csv = "read_as unvalidated_csv" and df = unvalidated_csv and d = one_row_db,
      OF q p(2)] n
  have "\<forall>columns. set required_columns \<subseteq> set columns \<longrightarrow>
          upload_csv ''bank.csv'' (read_as (unvalidated_csv\<lparr>df_columns := columns\<rparr>)) one_row_db
            = upload_csv ''bank.csv'' (read_as unvalidated_csv) one_row_db"
    by blast
  then have 3: "upload_csv ''bank.csv''
       (read_as (unvalidated_csv\<lparr>df_columns := required_columns\<rparr>)) one_row_db
     = upload_csv ''bank.csv'' (read_as unvalidated_csv) one_row_db"
    by blast
  from 1 2 3 show ?thesis
    by (intro conjI)
qed

text \<open>
  Claim C9. For a CSV file that passes the column check: if some row cannot be inserted
  (it leaves a NOT NULL column empty, it holds a whole number too large to be bound, or
  the table is missing), the import ends with the "Failed to upload CSV" error and the
  database is exactly what it was before, the rows before the failing one included; and
  whenever the database has changed, every row of the file was inserted.
\<close>

theorem upload_csv_all_or_nothing:
  assumes "file_path \<noteq> []" and "read_csv file_path = Inr df"
    and "set required_columns \<subseteq> set (df_columns df)"
  shows "((\<exists>r\<in>set (df_rows df). \<not> insertable r)
            \<or> (transactions d = None \<and> df_rows df \<noteq> []) \<longrightarrow>
          (\<exists>e. upload_csv file_path read_csv d
                 = (Some (ShowError ''Error'' (''Failed to upload CSV: '' @ str_exn e)), d)))
         \<and> (snd (upload_csv file_path read_csv d) \<noteq> d \<longrightarrow>
              list_all insertable (df_rows df)
              \<and> (\<exists>t ns sq. transactions d = Some t
                     \<and> upload_csv file_path read_csv d
                         = (Some (ShowInfo ''CSV Upload'' ''CSV file uploaded successfully.''),
                            \<lparr>transactions = Some \<lparr>rows = rows t @ ns, seq = sq\<rparr>\<rparr>)
                     \<and> length ns = length (df_rows df)))"
proof -
  have chk: "list_all (\<lambda>col. col \<in> set (df_columns df)) required_columns"
    using assms(3) by (auto simp: list_all_iff)
  have a: "\<exists>e. upload_csv file_path read_csv d
                 = (Some (ShowError ''Error'' (''Failed to upload CSV: '' @ str_exn e)), d)"
    if "(\<exists>r\<in>set (df_rows df). \<not> insertable r) \<or> (transactions d = None \<and> df_rows df \<noteq> [])"
    using upload_csv_failed [where file_path = file_path and read_csv = read_csv and df = df and d = d, OF assms that] .
  have b: "list_all insertable (df_rows df)
           \<and> (\<exists>t ns sq. transactions d = Some t
                 \<and> upload_csv file_path read_csv d
                     = (Some (ShowInfo ''CSV Upload'' ''CSV file uploaded successfully.''),
                        \<lparr>transactions = Some \<lparr>rows = rows t @ ns, seq = sq\<rparr>\<rparr>)
                 \<and> length ns = length (df_rows df))"
    if changed: "snd (upload_csv file_path read_csv d) \<noteq> d"
  proof -
    have all: "list_all insertable (df_rows df)"
    proof (rule ccontr)
      assume "\<not> list_all insertable (df_rows df)"
      then have "\<exists>r\<in>set (df_rows df). \<not> insertable r"
        by (simp add: list_all_iff)
      then have "snd (upload_csv file_path read_csv d) = d"
        using a by fastforce
      with changed show False by simp
    qed
    have rs: "df_rows df \<noteq> []"
    proof
      assume "df_rows df = []"
      then have "snd (upload_csv file_path read_csv d) = d"
        using assms(1,2) chk
        by (simp add: upload_csv_def connect_def commit_def close_def abandon_def current_def)
      with changed show False by simp
    qed
    have "transactions d \<noteq> None"
    proof
      assume "transactions d = None"
      with rs have "snd (upload_csv file_path read_csv d) = d"
        using a by fastforce
      with changed show False by simp
    qed
    then obtain t where t: "transactions d = Some t"
      by auto
    from upload_csv_inserted [where file_path = file_path and read_csv = read_csv and df = df and d = d, OF assms t all]
    obtain ns sq where
      u: "upload_csv file_path read_csv d
            = (Some (ShowInfo ''CSV Upload'' ''CSV file uploaded successfully.''),
               \<lparr>transactions = Some \<lparr>rows = rows t @ ns, seq = sq\<rparr>\<rparr>)"
      and ns: "map (\<lambda>n. Inr (Some (txn_amount n))) ns
                 = map (\<lambda>r. real_column (cell_amount r)) (df_rows df)"
      by blast
    from ns have "length ns = length (df_rows df)"
      by (rule map_eq_imp_length_eq)
    with u all t show ?thesis by blast
  qed
  from a b show ?thesis by blast
qed

theorem upload_csv_all_or_nothing_witness:
  "upload_csv ''bank.csv'' (read_as missing_date_csv) one_row_db
     = (Some (ShowError ''Error''
          ''Failed to upload CSV: NOT NULL constraint failed: transactions.date''), one_row_db)
   \<and> upload_csv ''bank.csv'' (read_as large_amount_csv) one_row_db
     = (Some (ShowError ''Error''
          ''Failed to upload CSV: Python int too large to convert to SQLite INTEGER''),
        one_row_db)
   \<and> (\<exists>ns sq. snd (upload_csv ''bank.csv'' (read_as unvalidated_csv) empty_db)
          = \<lparr>transactions = Some \<lparr>rows = ns, seq = sq\<rparr>\<rparr> \<and> length ns = 3)"
proof -
  have 1: "\<exists>r\<in>set (df_rows missing_date_csv). \<not> insertable r"
    by (simp add: missing_date_csv_def insertable_def)
  have 2: "snd (upload_csv ''bank.csv'' (read_as unvalidated_csv) empty_db) \<noteq> empty_db"
    by (simp add: upload_eval unvalidated_csv_def empty_db_def)
  have 3: "\<exists>r\<in>set (df_rows large_amount_csv). \<not> insertable r"
    by (simp add: large_amount_csv_def insertable_def fits_int64_def)
  have 4: "round_double 12 = Fin 12"
    by (simp add: round_double_eval)
  from upload_csv_all_or_nothing [of "''bank.csv''" "read_as missing_date_csv" missing_date_csv
      one_row_db] 1
  have "\<exists>e. upload_csv ''bank.csv'' (read_as missing_date_csv) one_row_db
           = (Some (ShowError ''Error'' (''Failed to upload CSV: '' @ str_exn e)), one_row_db)"
    by (simp add: read_as_def missing_date_csv_def required_columns_def)
  then have a: "upload_csv ''bank.csv'' (read_as missing_date_csv) one_row_db
     = (Some (ShowError ''Error''
          ''Failed to upload CSV: NOT NULL constraint failed: transactions.date''), one_row_db)"
    by (simp add: upload_eval missing_date_csv_def one_row_db_def food_row_def
          not_null_failed_def)
  from upload_csv_all_or_nothing [of "''bank.csv''" "read_as large_amount_csv" large_amount_csv
      one_row_db] 3
  have "\<exists>e. upload_csv ''bank.csv'' (read_as large_amount_csv) one_row_db
           = (Some (ShowError ''Error'' (''Failed to upload CSV: '' @ str_exn e)), one_row_db)"
    by (simp add: read_as_def large_amount_csv_def required_columns_def)
  then have b: "upload_csv ''bank.csv'' (read_as large_amount_csv) one_row_db
     = (Some (ShowError ''Error''
          ''Failed to upload CSV: Python int too large to convert to SQLite INTEGER''),
        one_row_db)"
    by (simp add: upload_eval large_amount_csv_def one_row_db_def food_row_def
          int_too_large_def 4)
  from upload_csv_all_or_nothing [of "''bank.csv''" "read_as unvalidated_csv" unvalidated_csv
      empty_db] 2
  have c: "\<exists>ns sq. snd (upload_csv ''bank.csv'' (read_as unvalidated_csv) empty_db)
          = \<lparr>transactions = Some \<lparr>rows = ns, seq = sq\<rparr>\<rparr> \<and> length ns = 3"
    by (auto simp: read_as_def unvalidated_csv_def required_columns_def empty_db_def)
  from a b c show ?thesis by blast
qed




subsection \<open>Manual entry\<close>

lemma py_float_40_33: "py_float ''40.33'' = Some (Fin (2837971452685189 / 70368744177664))"
  by (simp add: py_float_eval round_double_eval)

lemma validate_amount_Some:
  assumes "validate_amount amount"
  obtains f where "py_float amount = Some f" and "float_less (Fin 0) f" and "bind_float f = Some f"
proof -
  from assms obtain f where f: "py_float amount = Some f" "float_less (Fin 0) f"
    by (auto simp: validate_amount_def split: option.splits)
  from f(2) have "f \<noteq> NaN" by auto
  with f that show thesis by (simp add: bind_float_def)
qed

text \<open>
  Claim C2. \<open>add_transaction\<close> reads the date first: when \<open>validate_date\<close> rejects it, the
  "Invalid date format" line is printed, no further input is read and the database is
  unchanged. When the date passes and \<open>validate_amount\<close> rejects the amount, the "Invalid
  amount" line is printed and the database is unchanged. When both pass (and the table
  exists), the amount parses to a float \<open>f > 0\<close> and exactly one record is appended, with the
  date, category and description as entered, the amount \<open>f\<close> and the next id.
\<close>

theorem add_transaction_validates:
  "(\<not> validate_date date \<longrightarrow>
      add_transaction (date # rest) d
        = (Printed ''Invalid date format. Please use YYYY-MM-DD.'', rest, d))
   \<and> (validate_date date \<and> \<not> validate_amount amount \<longrightarrow>
      add_transaction (date # category # amount # rest) d
        = (Printed ''Invalid amount. Please enter a positive number.'', rest, d))
   \<and> (validate_date date \<and> validate_amount amount \<and> transactions d = Some t \<longrightarrow>
      (\<exists>f. py_float amount = Some f \<and> float_less (Fin 0) f
         \<and> add_transaction (date # category # amount # description # rest) d
           = (Printed ''Transaction added successfully!'', rest,
              \<lparr>transactions = Some
                 \<lparr>rows = rows t @
                    [\<lparr>txn_id = new_rowid t, txn_date = date, txn_category = category,
                      txn_amount = f, txn_description = Some description\<rparr>],
                  seq = new_rowid t\<rparr>\<rparr>)))"
proof (intro conjI impI)
  assume "\<not> validate_date date"
  then show "add_transaction (date # rest) d
        = (Printed ''Invalid date format. Please use YYYY-MM-DD.'', rest, d)"
    by (simp add: add_transaction_def input_def)
next
  assume "validate_date date \<and> \<not> validate_amount amount"
  then show "add_transaction (date # category # amount # rest) d
        = (Printed ''Invalid amount. Please enter a positive number.'', rest, d)"
    by (simp add: add_transaction_def input_def)
next
  assume a: "validate_date date \<and> validate_amount amount \<and> transactions d = Some t"
  then obtain f where f: "py_float amount = Some f" "float_less (Fin 0) f" "bind_float f = Some f"
    using validate_amount_Some by blast
  have "add_transaction (date # category # amount # description # rest) d
           = (Printed ''Transaction added successfully!'', rest,
              \<lparr>transactions = Some
                 \<lparr>rows = rows t @
                    [\<lparr>txn_id = new_rowid t, txn_date = date, txn_category = category,
                      txn_amount = f, txn_description = Some description\<rparr>],
                  seq = new_rowid t\<rparr>\<rparr>)"
    using a f
    by (simp add: add_transaction_def input_def connect_def current_def commit_def close_def abandon_def
          execute_insert_def insert_row_def)
  with f show "\<exists>f. py_float amount = Some f \<and> float_less (Fin 0) f
         \<and> add_transaction (date # category # amount # description # rest) d
           = (Printed ''Transaction added successfully!'', rest,
              \<lparr>transactions = Some
                 \<lparr>rows = rows t @
                    [\<lparr>txn_id = new_rowid t, txn_date = date, txn_category = category,
                      txn_amount = f, txn_description = Some description\<rparr>],
                  seq = new_rowid t\<rparr>\<rparr>)"
    by blast
qed

theorem add_transaction_validates_witness:
  "add_transaction [''01-05-2024'', ''Food'', ''12'', ''lunch''] empty_db
     = (Printed ''Invalid date format. Please use YYYY-MM-DD.'', [''Food'', ''12'', ''lunch''],
        empty_db)
   \<and> add_transaction [''2024-05-01'', ''Food'', ''-50'', ''lunch''] empty_db
     = (Printed ''Invalid amount. Please enter a positive number.'', [''lunch''], empty_db)
   \<and> add_transaction [''2024-05-01'', ''Transportation'', ''40.33'', ''x''] empty_db
     = (Printed ''Transaction added successfully!'', [],
        \<lparr>transactions = Some
           \<lparr>rows = [\<lparr>txn_id = 1, txn_date = ''2024-05-01'', txn_category = ''Transportation'',
                      txn_amount = Fin (2837971452685189 / 70368744177664),
                      txn_description = Some ''x''\<rparr>],
            seq = 1\<rparr>\<rparr>)"
proof -
  have d1: "\<not> validate_date ''01-05-2024''" and d2: "validate_date ''2024-05-01''"
    by (simp_all add: validate_date_def is_digit_def)
  have a1: "\<not> validate_amount ''-50''" and a2: "validate_amount ''40.33''"
    by (simp_all add: validate_amount_def py_float_minus_50 py_float_40_33)
  from add_transaction_validates [where date = "''01-05-2024''"
      and rest = "[''Food'', ''12'', ''lunch'']" and d = empty_db] d1
  have 1: "add_transaction [''01-05-2024'', ''Food'', ''12'', ''lunch''] empty_db
     = (Printed ''Invalid date format. Please use YYYY-MM-DD.'', [''Food'', ''12'', ''lunch''],
        empty_db)"
    by simp
  from add_transaction_validates [where date = "''2024-05-01''" and category = "''Food''"
      and amount = "''-50''" and rest = "[''lunch'']" and d = empty_db] d2 a1
  have 2: "add_transaction [''2024-05-01'', ''Food'', ''-50'', ''lunch''] empty_db
     = (Printed ''Invalid amount. Please enter a positive number.'', [''lunch''], empty_db)"
    by simp
  from add_transaction_validates [where date = "''2024-05-01''"
      and category = "''Transportation''" and amount = "''40.33''" and description = "''x''"
      and rest = "[]" and d = empty_db and t = "\<lparr>rows = [], seq = 0\<rparr>"] d2 a2
  have 3: "add_transaction [''2024-05-01'', ''Transportation'', ''40.33'', ''x''] empty_db
     = (Printed ''Transaction added successfully!'', [],
        \<lparr>transactions = Some
           \<lparr>rows = [\<lparr>txn_id = 1, txn_date = ''2024-05-01'', txn_category = ''Transportation'',
                      txn_amount = Fin (2837971452685189 / 70368744177664),
                      txn_description = Some ''x''\<rparr>],
            seq = 1\<rparr>\<rparr>)"
    by (simp add: empty_db_def py_float_40_33 new_rowid_def)
  from 1 2 3 show ?thesis by simp
qed

subsection \<open>Keyword search\<close>

lemma patternCompare_percent_all: "patternCompare ''%'' s"
  by (induction s) auto

lemma patternCompare_percent_Cons: "patternCompare (CHR ''%'' # q) s \<longleftrightarrow> (\<exists>u t. s = u @ t \<and> patternCompare q t)"
proof (induction s)
  case Nil
  then show ?case by simp
next
  case (Cons c cs)
  show ?case
  proof
    assume "patternCompare (CHR ''%'' # q) (c # cs)"
    then consider "patternCompare q (c # cs)" | "patternCompare (CHR ''%'' # q) cs" by auto
    then show "\<exists>u t. c # cs = u @ t \<and> patternCompare q t"
    proof cases
      case 1
      then show ?thesis by (intro exI [of _ "[]"] exI [of _ "c # cs"]) simp
    next
      case 2
      with Cons.IH obtain u t where "cs = u @ t" "patternCompare q t" by auto
      then show ?thesis by (intro exI [of _ "c # u"] exI [of _ t]) simp
    qed
  next
    assume "\<exists>u t. c # cs = u @ t \<and> patternCompare q t"
    then obtain u t where ut: "c # cs = u @ t" "patternCompare q t" by auto
    show "patternCompare (CHR ''%'' # q) (c # cs)"
    proof (cases u)
      case Nil
      with ut have "patternCompare q (c # cs)" by simp
      then show ?thesis by simp
    next
      case (Cons a u')
      with ut have "cs = u' @ t" by simp
      with ut(2) Cons.IH have "patternCompare (CHR ''%'' # q) cs" by auto
      then show ?thesis by simp
    qed
  qed
qed

lemma patternCompare_literal_prefix:
  assumes "CHR ''%'' \<notin> set p"
  shows "patternCompare (p @ q) s \<longleftrightarrow> (\<exists>w t. s = w @ t \<and> list_all2 like_char p w \<and> patternCompare q t)"
  using assms
proof (induction p arbitrary: s)
  case Nil
  then show ?case by simp
next
  case (Cons a p)
  then have a: "a \<noteq> CHR ''%''" and p: "CHR ''%'' \<notin> set p" by auto
  show ?case
  proof (cases s)
    case Nil
    with a show ?thesis by simp
  next
    case (Cons c cs)
    have "patternCompare ((a # p) @ q) (c # cs) \<longleftrightarrow> like_char a c \<and> patternCompare (p @ q) cs"
      using a by (simp add: like_char_def)
    also have "\<dots> \<longleftrightarrow> like_char a c \<and> (\<exists>w t. cs = w @ t \<and> list_all2 like_char p w \<and> patternCompare q t)"
      using Cons.IH [OF p] by simp
    also have "\<dots> \<longleftrightarrow> (\<exists>w t. c # cs = w @ t \<and> list_all2 like_char (a # p) w \<and> patternCompare q t)"
      by (auto simp: list_all2_Cons1 Cons_eq_append_conv)
    finally show ?thesis using Cons by simp
  qed
qed

lemma patternCompare_keyword:
  assumes "CHR ''%'' \<notin> set keyword"
  shows "patternCompare (''%'' @ keyword @ ''%'') s
         \<longleftrightarrow> (\<exists>u w v. s = u @ w @ v \<and> list_all2 like_char keyword w)"
proof -
  have "patternCompare (''%'' @ keyword @ ''%'') s \<longleftrightarrow> (\<exists>u t. s = u @ t \<and> patternCompare (keyword @ ''%'') t)"
    using patternCompare_percent_Cons [of "keyword @ ''%''" s] by simp
  also have "\<dots> \<longleftrightarrow> (\<exists>u t. s = u @ t \<and> (\<exists>w v. t = w @ v \<and> list_all2 like_char keyword w))"
    using patternCompare_literal_prefix [OF assms, of "''%''"] patternCompare_percent_all by simp
  also have "\<dots> \<longleftrightarrow> (\<exists>u w v. s = u @ w @ v \<and> list_all2 like_char keyword w)"
    by blast
  finally show ?thesis .
qed

lemma patternCompare_same_prefix: "patternCompare q t \<Longrightarrow> patternCompare (p @ q) (p @ t)"
proof (induction p)
  case Nil
  then show ?case by simp
next
  case (Cons a p)
  show ?case
  proof (cases "a = CHR ''%''")
    case True
    have "patternCompare (CHR ''%'' # p @ q) (p @ t)"
      using patternCompare_percent_Cons [of "p @ q" "p @ t"] Cons by (auto intro: exI [of _ "[]"])
    with True show ?thesis by simp
  next
    case False
    with Cons show ?thesis by simp
  qed
qed

lemma patternCompare_sublist:
  assumes "sublist keyword s"
  shows "patternCompare (''%'' @ keyword @ ''%'') s"
proof -
  from assms obtain u v where s: "s = u @ keyword @ v"
    by (auto simp: sublist_def)
  have "patternCompare (keyword @ ''%'') (keyword @ v)"
    by (rule patternCompare_same_prefix) (rule patternCompare_percent_all)
  with s show ?thesis
    using patternCompare_percent_Cons [of "keyword @ ''%''" s] by auto
qed

lemma utf8_length_append: "utf8_length (a @ b) = utf8_length a + utf8_length b"
  by (simp add: utf8_length_def)

lemma like_char_lower:
  assumes "CHR ''_'' \<notin> set p"
  shows "list_all2 like_char p w \<longleftrightarrow> map lower w = map lower p"
  using assms
proof (induction p arbitrary: w)
  case Nil
  then show ?case by simp
next
  case (Cons a p)
  then show ?case
    by (cases w) (auto simp: like_char_def)
qed

lemma split_map_sublist:
  assumes "map f s = ps @ map f k @ ss"
  shows "\<exists>u w v. s = u @ w @ v \<and> map f w = map f k"
proof -
  from assms obtain u r where s: "s = u @ r" and r: "map f r = map f k @ ss"
    by (metis map_eq_append_conv)
  from r obtain w v where "r = w @ v" and "map f w = map f k"
    by (metis map_eq_append_conv)
  with s show ?thesis by blast
qed

lemma c_string_no_nul: "CHR 0x00 \<notin> set s \<Longrightarrow> c_string s = s"
  by (auto simp: c_string_def takeWhile_eq_all_conv)

lemma patternCompare_keyword_nocase:
  assumes "CHR ''%'' \<notin> set keyword" and "CHR ''_'' \<notin> set keyword"
  shows "patternCompare (''%'' @ keyword @ ''%'') s
         \<longleftrightarrow> sublist (map lower keyword) (map lower s)"
proof -
  have "patternCompare (''%'' @ keyword @ ''%'') s
        \<longleftrightarrow> (\<exists>u w v. s = u @ w @ v \<and> map lower w = map lower keyword)"
    using patternCompare_keyword [OF assms(1)] like_char_lower [OF assms(2)] by simp
  also have "\<dots> \<longleftrightarrow> sublist (map lower keyword) (map lower s)"
  proof
    assume "\<exists>u w v. s = u @ w @ v \<and> map lower w = map lower keyword"
    then obtain u w v where "s = u @ w @ v" "map lower w = map lower keyword" by blast
    then have "map lower s = map lower u @ map lower keyword @ map lower v" by simp
    then show "sublist (map lower keyword) (map lower s)"
      unfolding sublist_def by blast
  next
    assume "sublist (map lower keyword) (map lower s)"
    then obtain ps ss where "map lower s = ps @ map lower keyword @ ss"
      unfolding sublist_def by blast
    then show "\<exists>u w v. s = u @ w @ v \<and> map lower w = map lower keyword"
      by (rule split_map_sublist)
  qed
  finally show ?thesis .
qed

lemma like_keyword_nocase:
  assumes "CHR ''%'' \<notin> set keyword" and "CHR ''_'' \<notin> set keyword"
    and "CHR 0x00 \<notin> set keyword"
  shows "like (''%'' @ keyword @ ''%'') s
         \<longleftrightarrow> sublist (map lower keyword) (map lower (c_string s))"
proof -
  have "c_string (''%'' @ keyword @ ''%'') = ''%'' @ keyword @ ''%''"
    using assms(3) by (intro c_string_no_nul) simp
  then show ?thesis
    using patternCompare_keyword_nocase [OF assms(1,2)] by (simp add: like_def)
qed

text \<open>
  Claim C7, as stated, fails: the keyword \<open>food\<close> selects the record whose description is
  \<open>Food transaction\<close>, which does not contain \<open>food\<close> character for character.
\<close>

theorem keyword_case_counterexample:
  "get_transactions_by_keyword [''keyword'' \<mapsto> ''food''] one_row_db
     = (Response 200 (Rows [food_row]),
        [''SELECT * FROM transactions WHERE description LIKE ?;''])
   \<and> selectByKeyword_spec ''food'' [food_row] = []"
  by (simp add: get_transactions_by_keyword_def not_str_def fetchall_def select_like_def
        db_connection_def connect_def current_def one_row_db_def food_row_def
        description_like_def like_def c_string_def utf8_length_def lower_def
        selectByKeyword_spec_def sublist_Cons_right)

text \<open>
  Claim C7, amended. For a request with a non-empty keyword that contains none of \<open>%\<close>, \<open>_\<close>
  and the NUL character (and has at most 49998 bytes in UTF-8), the response is exactly
  the stored records whose description, read up to its first NUL character if it has
  one, contains the keyword as a substring, the letters \<open>A\<close> to \<open>Z\<close> and \<open>a\<close> to \<open>z\<close> compared
  without regard to case.
\<close>

theorem keyword_is_substring_nocase:
  assumes "args ''keyword'' = Some keyword" and "keyword \<noteq> []"
    and "CHR ''%'' \<notin> set keyword" and "CHR ''_'' \<notin> set keyword"
    and "CHR 0x00 \<notin> set keyword"
    and "utf8_length keyword \<le> 49998" and "transactions d = Some t"
  shows "get_transactions_by_keyword args d
           = (Response 200 (Rows (selectByKeyword_nocase keyword (rows t))),
              [''SELECT * FROM transactions WHERE description LIKE ?;''])"
proof -
  have "utf8_length (''%'' @ keyword @ ''%'') = utf8_length keyword + 2"
    by (simp add: utf8_length_def)
  with assms have "get_transactions_by_keyword args d
           = (Response 200 (Rows (filter (description_like (''%'' @ keyword @ ''%'')) (rows t))),
              [''SELECT * FROM transactions WHERE description LIKE ?;''])"
    by (simp add: get_transactions_by_keyword_def not_str_def fetchall_def select_like_def
          db_connection_def connect_def current_def)
  moreover have "filter (description_like (''%'' @ keyword @ ''%'')) (rows t)
                 = selectByKeyword_nocase keyword (rows t)"
    unfolding selectByKeyword_nocase_def
    using like_keyword_nocase [OF assms(3,4,5)]
    by (intro filter_cong) (auto simp: description_like_def split: option.splits)
  ultimately show ?thesis by simp
qed

theorem keyword_is_substring_nocase_witness:
  "get_transactions_by_keyword [''keyword'' \<mapsto> ''Lunch''] lunch_db
     = (Response 200 (Rows [hd lunch_rows]),
        [''SELECT * FROM transactions WHERE description LIKE ?;''])
   \<and> txn_description (hd lunch_rows) = Some ''Team LUNCH''"
proof -
  have "selectByKeyword_nocase ''Lunch'' lunch_rows = [hd lunch_rows]"
    by (simp add: selectByKeyword_nocase_def lunch_rows_def lower_def c_string_def
          sublist_Cons_right)
  with keyword_is_substring_nocase [of "[''keyword'' \<mapsto> ''Lunch'']" "''Lunch''" lunch_db
      "\<lparr>rows = lunch_rows, seq = 4\<rparr>"]
  show ?thesis
    by (simp add: utf8_length_def lunch_db_def lunch_rows_def)
qed

text \<open>
  The pattern \<open>%keyword%\<close> ends at the first NUL character of the keyword: the keyword that
  is one NUL character selects every record that has a description.
\<close>

lemma nul_keyword_selects_all:
  "get_transactions_by_keyword [''keyword'' \<mapsto> [CHR 0x00]] lunch_db
     = (Response 200 (Rows (filter (\<lambda>r. txn_description r \<noteq> None) lunch_rows)),
        [''SELECT * FROM transactions WHERE description LIKE ?;''])"
  by (simp add: get_transactions_by_keyword_def not_str_def fetchall_def select_like_def
        db_connection_def connect_def current_def lunch_db_def lunch_rows_def
        description_like_def like_def c_string_def utf8_length_def)

subsection \<open>Monthly summary\<close>

lemma days_in_month_le: "days_in_month y m \<le> 31"
  by (simp add: days_in_month_def)

lemma date_shape_length: "date_shape s \<Longrightarrow> length s = 10"
  by (induction s rule: date_shape.induct) simp_all

lemma strftime_ym_calendar:
  assumes "calendar_date date"
  shows "strftime_ym other date = Some (take 7 date)"
proof -
  define y where "y = int (digits_val (take 4 date))"
  define m where "m = int (digits_val (take 2 (drop 5 date)))"
  define dd where "dd = int (digits_val (take 2 (drop 8 date)))"
  from assms have sh: "date_shape date"
    and md: "1 \<le> m" "m \<le> 12" "1 \<le> dd" "dd \<le> days_in_month y m"
    by (simp_all add: calendar_date_def Let_def y_def m_def dd_def)
  from sh have "length date = 10" by (rule date_shape_length)
  with sh have pd: "plain_date date" by (simp add: plain_date_def)
  from md(4) days_in_month_le [of y m] have "dd \<le> 31" by linarith
  with pd md show ?thesis
    unfolding strftime_ym_def Let_def y_def [symmetric] m_def [symmetric] dd_def [symmetric]
    by simp
qed

lemma group_by_sum_cong:
  assumes "\<And>r. r \<in> set ts \<Longrightarrow> k1 r = k2 r"
  shows "group_by_sum k1 ts = group_by_sum k2 ts"
proof -
  have m: "map k1 ts = map k2 ts" using assms by simp
  have f: "filter (\<lambda>r. k1 r = k) ts = filter (\<lambda>r. k2 r = k) ts" for k
    using assms by (auto intro: filter_cong)
  show ?thesis by (simp add: group_by_sum_def m f)
qed

lemma group_by_sum_keys: "map fst (group_by_sum key ts) = sort (remdups (map key ts))"
  by (simp add: group_by_sum_def comp_def)

lemma group_by_sum_total:
  "(k, tot) \<in> set (group_by_sum key ts)
   \<Longrightarrow> tot = sql_sum (map txn_amount (filter (\<lambda>r. key r = k) ts))"
  by (auto simp: group_by_sum_def)

text \<open>
  A day past the end of its month is counted into the next month: the 30th of February
  2024 belongs to March.
\<close>

lemma strftime_ym_feb_30: "strftime_ym other ''2024-02-30'' = Some ''2024-03''"
  by (simp add: strftime_ym_def plain_date_def is_digit_def digits_val_def digit_val_def
        days_in_month_def leap_year_def two_digits_def)

lemmas summary_eval =
  group_by_sum_def sql_sum_def kahanBabuskaNeumaierStep_def float_sub_def is_overflow_def
  bind_float_def round_double_eval less_eq_char_def is_digit_def digits_val_def digit_val_def

text \<open>
  Claim C5, as stated, fails: two records dated \<open>2024-13-01\<close> and \<open>2024-14-01\<close> (dates that
  \<open>validate_date\<close> accepts). Their first 7 characters differ, yet \<open>strftime\<close> gives NULL for
  both and the summary has the single group NULL with the total 3, where grouping by the
  first 7 characters gives the groups \<open>2024-13\<close> and \<open>2024-14\<close>.
\<close>

theorem monthly_summary_month13_counterexample:
  "validate_date ''2024-13-01'' \<and> validate_date ''2024-14-01''
   \<and> get_monthly_spending_summary Map.empty month13_db
     = (Response 200 (Summary [(None, Some (Fin 3))]), [monthly_summary_sql])
   \<and> summaryByMonth_spec month13_rows
     = [(Some ''2024-13'', Some (Fin 1)), (Some ''2024-14'', Some (Fin 2))]"
  by (simp add: validate_date_def get_monthly_spending_summary_def select_monthly_summary_def
        db_connection_def connect_def current_def month13_db_def month13_rows_def
        strftime_ym_def plain_date_def summaryByMonth_spec_def summary_eval)

text \<open>
  Claim C5, amended. When every stored date is a calendar date in the form \<open>YYYY-MM-DD\<close>
  (month \<open>01\<close> to \<open>12\<close>, a day that exists in that month), the monthly summary groups the
  records by exactly the first 7 characters of the date: its months are the distinct
  7-character prefixes in ascending order, each with the sum of the amounts of the records
  that have that prefix. This holds whatever SQLite makes of other date texts.
\<close>

theorem monthly_summary_by_prefix:
  assumes "transactions d = Some t"
    and "\<forall>r\<in>set (rows t). calendar_date (txn_date r)"
  shows "get_monthly_spending_summary other d
           = (Response 200 (Summary (summaryByMonth_spec (rows t))), [monthly_summary_sql])
         \<and> map fst (summaryByMonth_spec (rows t))
           = sort (remdups (map (\<lambda>r. Some (take 7 (txn_date r))) (rows t)))
         \<and> sorted (map fst (summaryByMonth_spec (rows t)))
         \<and> distinct (map fst (summaryByMonth_spec (rows t)))
         \<and> (\<forall>(k, tot)\<in>set (summaryByMonth_spec (rows t)).
              tot = sql_sum (map txn_amount
                      (filter (\<lambda>r. Some (take 7 (txn_date r)) = k) (rows t))))"
proof -
  have "group_by_sum (\<lambda>r. strftime_ym other (txn_date r)) (rows t)
        = summaryByMonth_spec (rows t)"
    unfolding summaryByMonth_spec_def
    using assms(2) by (intro group_by_sum_cong) (simp add: strftime_ym_calendar)
  with assms(1) have "get_monthly_spending_summary other d
           = (Response 200 (Summary (summaryByMonth_spec (rows t))), [monthly_summary_sql])"
    by (simp add: get_monthly_spending_summary_def select_monthly_summary_def
          db_connection_def connect_def current_def)
  moreover have keys: "map fst (summaryByMonth_spec (rows t))
           = sort (remdups (map (\<lambda>r. Some (take 7 (txn_date r))) (rows t)))"
    by (simp add: summaryByMonth_spec_def group_by_sum_keys)
  moreover have "sorted (map fst (summaryByMonth_spec (rows t)))"
    and "distinct (map fst (summaryByMonth_spec (rows t)))"
    by (simp_all add: keys)
  moreover have "\<forall>(k, tot)\<in>set (summaryByMonth_spec (rows t)).
              tot = sql_sum (map txn_amount
                      (filter (\<lambda>r. Some (take 7 (txn_date r)) = k) (rows t)))"
    using group_by_sum_total [of _ _ "\<lambda>r. Some (take 7 (txn_date r))" "rows t"]
    by (auto simp: summaryByMonth_spec_def)
  ultimately show ?thesis by blast
qed

theorem monthly_summary_by_prefix_witness:
  "get_monthly_spending_summary Map.empty may_db
     = (Response 200 (Summary [(Some ''2024-05'', Some (Fin (25 / 2))),
                                (Some ''2024-06'', Some (Fin 700))]),
        [monthly_summary_sql])"
proof -
  have "\<forall>r\<in>set may_rows. calendar_date (txn_date r)"
    by (simp add: may_rows_def calendar_date_def is_digit_def digits_val_def digit_val_def
          days_in_month_def leap_year_def)
  with monthly_summary_by_prefix [of may_db "\<lparr>rows = may_rows, seq = 3\<rparr>" Map.empty]
  have "get_monthly_spending_summary Map.empty may_db
           = (Response 200 (Summary (summaryByMonth_spec may_rows)), [monthly_summary_sql])"
    by (simp add: may_db_def)
  moreover have "summaryByMonth_spec may_rows
      = [(Some ''2024-05'', Some (Fin (25 / 2))), (Some ''2024-06'', Some (Fin 700))]"
    by (simp add: summaryByMonth_spec_def may_rows_def summary_eval)
  ultimately show ?thesis by simp
qed

end
